theory Spec2Isabelle
  imports Main "HOL-Library.AList"
begin

section \<open>The GitHub node: values of the host language\<close>

text \<open>
  The node \<^verbatim>\<open>Github.node.ts\<close> reads its parameters from the host as untyped
  values (the \<^verbatim>\<open>as string\<close> casts of the source are erased at run time), so the
  model works on a datatype of JSON-like values. Numbers are integers, a string is the
  sequence of its UTF-8 bytes, and an object is an association list in insertion order
  whose first entry for a key is the one that counts. \<open>JArr\<close> is a plain array;
  \<open>JArrProps\<close> is an array on which named properties have been set.
\<close>

datatype jsval =
    JUndefined
  | JNull
  | JBool bool
  | JNum int
  | JStr string
  | JArr "jsval list"
  | JArrProps "jsval list" "(string \<times> jsval) list"
  | JObj "(string \<times> jsval) list"

text \<open>
  Everything the source can throw: \<^verbatim>\<open>NodeOperationError\<close> is raised by the node
  itself, \<^verbatim>\<open>TypeError\<close> by the language (its text is a description, the engine's
  wording is not modelled), \<^verbatim>\<open>UpstreamError\<close> by a helper of the host or by the
  GitHub call.
\<close>

datatype error =
    NodeOperationError string
  | TypeError string
  | UpstreamError string

fun message :: "error \<Rightarrow> string" where
  "message (NodeOperationError m) = m"
| "message (TypeError m) = m"
| "message (UpstreamError m) = m"

definition bindS :: "error + 'a \<Rightarrow> ('a \<Rightarrow> error + 'c) \<Rightarrow> error + 'c" where
  "bindS m f = (case m of Inl e \<Rightarrow> Inl e | Inr v \<Rightarrow> f v)"

text \<open>The condition of a JavaScript \<^verbatim>\<open>if (v)\<close>.\<close>

fun truthy :: "jsval \<Rightarrow> bool" where
  "truthy JUndefined = False"
| "truthy JNull = False"
| "truthy (JBool b) = b"
| "truthy (JNum n) = (n \<noteq> 0)"
| "truthy (JStr s) = (s \<noteq> [])"
| "truthy (JArr xs) = True"
| "truthy (JArrProps xs ps) = True"
| "truthy (JObj kvs) = True"

text \<open>
  \<^verbatim>\<open>v[k]\<close> and \<^verbatim>\<open>v.k\<close> for the fixed keys the node reads (none of them is a
  built-in property of a string, a number or an array): reading from
  \<^verbatim>\<open>undefined\<close> or \<^verbatim>\<open>null\<close> throws, from any other non-object gives
  \<^verbatim>\<open>undefined\<close>.
\<close>

fun getProp :: "jsval \<Rightarrow> string \<Rightarrow> error + jsval" where
  "getProp (JObj kvs) k = Inr (case map_of kvs k of None \<Rightarrow> JUndefined | Some v \<Rightarrow> v)"
| "getProp (JArrProps xs ps) k = Inr (case map_of ps k of None \<Rightarrow> JUndefined | Some v \<Rightarrow> v)"
| "getProp JUndefined k = Inl (TypeError (''Cannot read properties of undefined (reading '' @ k @ '')''))"
| "getProp JNull k = Inl (TypeError (''Cannot read properties of null (reading '' @ k @ '')''))"
| "getProp v k = Inr JUndefined"

text \<open>
  \<^verbatim>\<open>v.k = x\<close> in strict mode (the body of a class is strict code), for the fixed keys
  the node sets: an object or an array gets the entry (an existing key keeps its place),
  \<^verbatim>\<open>undefined\<close>, \<^verbatim>\<open>null\<close> and the primitive values throw.
\<close>

fun setProp :: "jsval \<Rightarrow> string \<Rightarrow> jsval \<Rightarrow> error + jsval" where
  "setProp (JObj kvs) k x = Inr (JObj (AList.update k x kvs))"
| "setProp (JArr xs) k x = Inr (JArrProps xs [(k, x)])"
| "setProp (JArrProps xs ps) k x = Inr (JArrProps xs (AList.update k x ps))"
| "setProp v k x = Inl (TypeError (''Cannot set property '' @ k))"

text \<open>
  \<^verbatim>\<open>xs.map((data) => data[k])\<close>: only an array has \<^verbatim>\<open>map\<close>; the callback throws
  on an element that is \<^verbatim>\<open>undefined\<close> or \<^verbatim>\<open>null\<close>.
\<close>

fun mapProps :: "string \<Rightarrow> jsval list \<Rightarrow> error + jsval list" where
  "mapProps k [] = Inr []"
| "mapProps k (d # ds) =
     bindS (getProp d k) (\<lambda>v. bindS (mapProps k ds) (\<lambda>vs. Inr (v # vs)))"

fun mapProp :: "jsval \<Rightarrow> string \<Rightarrow> error + jsval" where
  "mapProp (JArr xs) k = bindS (mapProps k xs) (\<lambda>vs. Inr (JArr vs))"
| "mapProp (JArrProps xs ps) k = bindS (mapProps k xs) (\<lambda>vs. Inr (JArr vs))"
| "mapProp v k = Inl (TypeError ''map is not a function'')"

subsection \<open>Strings\<close>

definition digit_chars :: string where
  "digit_chars = ''0123456789''"

definition lower_chars :: string where
  "lower_chars = ''abcdefghijklmnopqrstuvwxyz''"

definition upper_chars :: string where
  "upper_chars = ''ABCDEFGHIJKLMNOPQRSTUVWXYZ''"

fun string_of_nat :: "nat \<Rightarrow> string" where
  "string_of_nat n =
     (if n < 10 then [digit_chars ! n]
      else string_of_nat (n div 10) @ [digit_chars ! (n mod 10)])"

declare string_of_nat.simps [simp del]

definition string_of_int :: "int \<Rightarrow> string" where
  "string_of_int n = (if n < 0 then CHR ''-'' # string_of_nat (nat (- n)) else string_of_nat (nat n))"

fun join :: "string \<Rightarrow> string list \<Rightarrow> string" where
  "join sep [] = []"
| "join sep [s] = s"
| "join sep (s # t # ss) = s @ sep @ join sep (t # ss)"

text \<open>
  The string a template literal \<^verbatim>\<open>`${v}`\<close> puts in place of \<^verbatim>\<open>v\<close>. An array
  is the comma-joined strings of its elements, where \<^verbatim>\<open>undefined\<close> and
  \<^verbatim>\<open>null\<close> count as empty.
\<close>

fun js_toString :: "jsval \<Rightarrow> string"
  and js_toStrings :: "jsval list \<Rightarrow> string list" where
  "js_toString JUndefined = ''undefined''"
| "js_toString JNull = ''null''"
| "js_toString (JBool b) = (if b then ''true'' else ''false'')"
| "js_toString (JNum n) = string_of_int n"
| "js_toString (JStr s) = s"
| "js_toString (JArr xs) = join '','' (js_toStrings xs)"
| "js_toString (JArrProps xs ps) = join '','' (js_toStrings xs)"
| "js_toString (JObj kvs) = ''[object Object]''"
| "js_toStrings [] = []"
| "js_toStrings (JUndefined # xs) = [] # js_toStrings xs"
| "js_toStrings (JNull # xs) = [] # js_toStrings xs"
| "js_toStrings (x # xs) = js_toString x # js_toStrings xs"

text \<open>
  \<^verbatim>\<open>encodeURI\<close>: the letters, the digits and the marks and reserved characters below
  stay as they are, every other byte becomes \<^verbatim>\<open>%XX\<close> in upper-case hexadecimal.
\<close>

definition uri_kept :: string where
  "uri_kept = lower_chars @ upper_chars @ digit_chars @ ''-_.!~*'' @ [CHR 0x27] @ ''();/?:@&=+$,#''"

definition hex_chars :: string where
  "hex_chars = ''0123456789ABCDEF''"

definition percent_byte :: "char \<Rightarrow> string" where
  "percent_byte c =
     (let n = (of_char c :: nat) in [CHR ''%'', hex_chars ! (n div 16), hex_chars ! (n mod 16)])"

definition encodeURI :: "string \<Rightarrow> string" where
  "encodeURI s = concat (map (\<lambda>c. if c \<in> set uri_kept then [c] else percent_byte c) s)"

text \<open>\<^verbatim>\<open>toUpperCase\<close> on the letters of ASCII; every other byte is kept.\<close>

definition toUpperCase :: "string \<Rightarrow> string" where
  "toUpperCase s = map (\<lambda>c. case map_of (zip lower_chars upper_chars) c of None \<Rightarrow> c | Some u \<Rightarrow> u) s"

definition toLowerCase :: "string \<Rightarrow> string" where
  "toLowerCase s = map (\<lambda>c. case map_of (zip upper_chars lower_chars) c of None \<Rightarrow> c | Some l \<Rightarrow> l) s"

text \<open>
  \<^verbatim>\<open>snakeCase\<close> comes from the package \<^verbatim>\<open>change-case\<close>, a dependency of the
  node. The model is the conversion of that package: a separator goes between a lower-case letter or digit and an upper-case
  letter (\<open>split_lower_upper\<close>), and between an upper-case letter and an upper-case
  letter followed by a lower-case one (\<open>split_upper_word\<close>); every run of bytes that
  are neither letters nor digits becomes one separator (\<open>strip_runs\<close>); separators at
  both ends are dropped; the words are lower-cased and joined by underscores.
\<close>

definition is_lower :: "char \<Rightarrow> bool" where
  "is_lower c = (c \<in> set lower_chars)"

definition is_upper :: "char \<Rightarrow> bool" where
  "is_upper c = (c \<in> set upper_chars)"

definition is_digit :: "char \<Rightarrow> bool" where
  "is_digit c = (c \<in> set digit_chars)"

definition is_alnum :: "char \<Rightarrow> bool" where
  "is_alnum c = (is_lower c \<or> is_upper c \<or> is_digit c)"

definition sep_char :: char where
  "sep_char = CHR 0x00"

fun split_lower_upper :: "string \<Rightarrow> string" where
  "split_lower_upper (a # b # rest) =
     (if (is_lower a \<or> is_digit a) \<and> is_upper b
      then a # sep_char # b # split_lower_upper rest
      else a # split_lower_upper (b # rest))"
| "split_lower_upper s = s"

fun split_upper_word :: "string \<Rightarrow> string" where
  "split_upper_word (a # b # c # rest) =
     (if is_upper a \<and> is_upper b \<and> is_lower c
      then a # sep_char # b # c # split_upper_word rest
      else a # split_upper_word (b # c # rest))"
| "split_upper_word s = s"

fun strip_runs :: "bool \<Rightarrow> string \<Rightarrow> string" where
  "strip_runs in_run [] = []"
| "strip_runs in_run (c # s) =
     (if is_alnum c then c # strip_runs False s
      else if in_run then strip_runs True s
      else sep_char # strip_runs True s)"

definition trim_seps :: "string \<Rightarrow> string" where
  "trim_seps s = rev (dropWhile (\<lambda>c. c = sep_char) (rev (dropWhile (\<lambda>c. c = sep_char) s)))"

definition snakeCase :: "string \<Rightarrow> string" where
  "snakeCase s =
     map (\<lambda>c. if c = sep_char then CHR ''_'' else c)
       (toLowerCase (trim_seps (strip_runs False (split_upper_word (split_lower_upper s)))))"

fun snakeCase_js :: "jsval \<Rightarrow> error + string" where
  "snakeCase_js (JStr s) = Inr (snakeCase s)"
| "snakeCase_js v = Inl (TypeError ''input.replace is not a function'')"

subsection \<open>Objects\<close>

text \<open>
  \<^verbatim>\<open>Object.assign(target, source)\<close>: every own entry of the source, in order, is set on
  the target. The own entries of an array or a string are its indexed elements; the
  other values have none.
\<close>

function objectAssign :: "(string \<times> 'v) list \<Rightarrow> (string \<times> 'v) list \<Rightarrow> (string \<times> 'v) list" where
  "objectAssign tgt [] = tgt"
| "objectAssign tgt ((k, v) # src) = objectAssign (AList.update k v tgt) (AList.delete k src)"
  by pat_completeness auto
termination
  by (relation "measure (\<lambda>(tgt, src). length src)") (auto simp: AList.delete_eq less_Suc_eq_le)

fun ownEntries :: "jsval \<Rightarrow> (string \<times> jsval) list" where
  "ownEntries (JObj kvs) = kvs"
| "ownEntries (JArr xs) = zip (map string_of_nat [0..<length xs]) xs"
| "ownEntries (JArrProps xs ps) = zip (map string_of_nat [0..<length xs]) xs @ ps"
| "ownEntries (JStr s) = zip (map string_of_nat [0..<length s]) (map (\<lambda>c. JStr [c]) s)"
| "ownEntries v = []"

text \<open>
  \<^verbatim>\<open>returnData.push.apply(returnData, v)\<close> pushes the elements of an array, nothing for
  \<^verbatim>\<open>undefined\<close> and \<^verbatim>\<open>null\<close>, and throws on the other primitive values. An
  object is read as an array-like through its \<^verbatim>\<open>length\<close> entry: a number, a
  boolean or a string of decimal digits gives the count, anything else counts as 0 (the
  general conversion of the language to a number is not modelled).
\<close>

definition digit_value :: "char \<Rightarrow> nat" where
  "digit_value c = (case map_of (zip digit_chars [0..<10]) c of None \<Rightarrow> 0 | Some d \<Rightarrow> d)"

fun toLength :: "jsval \<Rightarrow> nat" where
  "toLength (JNum n) = nat n"
| "toLength (JBool b) = (if b then 1 else 0)"
| "toLength (JStr s) = (if list_all is_digit s then foldl (\<lambda>a c. 10 * a + digit_value c) 0 s else 0)"
| "toLength v = 0"

fun arrayLike :: "jsval \<Rightarrow> error + jsval list" where
  "arrayLike (JArr xs) = Inr xs"
| "arrayLike (JArrProps xs ps) = Inr xs"
| "arrayLike JUndefined = Inr []"
| "arrayLike JNull = Inr []"
| "arrayLike (JObj kvs) =
     Inr (map (\<lambda>n. case map_of kvs (string_of_nat n) of None \<Rightarrow> JUndefined | Some v \<Rightarrow> v)
            [0..<(case map_of kvs ''length'' of None \<Rightarrow> 0 | Some l \<Rightarrow> toLength l)])"
| "arrayLike v = Inl (TypeError ''CreateListFromArrayLike called on non-object'')"

section \<open>Host, network calls and state\<close>

text \<open>
  A call of one of the two request helpers, with the method, the endpoint, the body and
  the query string it was given.
\<close>

datatype call =
    ApiRequest string string jsval jsval
  | ApiRequestAllItems string string jsval jsval

text \<open>
  An input item (\<^verbatim>\<open>INodeExecutionData\<close>): its \<^verbatim>\<open>json\<close> payload and, when it has
  attachments, the address of its attachment mapping in the store. The store is the list
  of all attachment mappings; an address is a position in it, a new mapping goes at the
  end. A mapping takes a property name to a reference \<open>'b\<close> to the binary data.
\<close>

record item =
  json :: jsval
  binary :: "nat option"

type_synonym 'b store = "(string \<times> 'b) list list"

definition deref :: "'b store \<Rightarrow> nat \<Rightarrow> (string \<times> 'b) list" where
  "deref sto a = (if a < length sto then sto ! a else [])"

text \<open>
  What the node takes from its surroundings: the host's \<^verbatim>\<open>continueOnFail()\<close> and
  \<^verbatim>\<open>getNodeParameter(name, index, fallback)\<close>, which may throw; the answer of the
  GitHub API to a call, which may depend on the calls made before it;
  \<^verbatim>\<open>Buffer.from(v).toString('base64')\<close> and \<^verbatim>\<open>Buffer.from(v, 'base64')\<close> of the
  runtime; the host's \<^verbatim>\<open>prepareBinaryData\<close>; the \<^verbatim>\<open>data\<close> field of a binary
  data object.
\<close>

record 'b host =
  continueOnFail :: bool
  getNodeParameter :: "string \<Rightarrow> nat \<Rightarrow> jsval option \<Rightarrow> error + jsval"
  apiResponse :: "call list \<Rightarrow> call \<Rightarrow> error + jsval"
  bufferToBase64 :: "jsval \<Rightarrow> error + string"
  bufferFromBase64 :: "jsval \<Rightarrow> error + string"
  prepareBinaryData :: "string \<Rightarrow> jsval \<Rightarrow> error + 'b"
  binaryDataOf :: "'b \<Rightarrow> jsval"

text \<open>
  The variables of \<^verbatim>\<open>execute\<close> that the request-building code assigns, and the calls
  made so far.
\<close>

record vars =
  requestMethod :: string
  endpoint :: string
  body :: jsval
  qs :: jsval
  returnAll :: jsval
  calls :: "call list"

text \<open>A statement: it changes the variables and returns a value or throws.\<close>

type_synonym 'a comp = "vars \<Rightarrow> (error + 'a) \<times> vars"

definition returnM :: "'a \<Rightarrow> 'a comp" where
  "returnM x = (\<lambda>v. (Inr x, v))"

definition throwM :: "error \<Rightarrow> 'a comp" where
  "throwM e = (\<lambda>v. (Inl e, v))"

definition liftM :: "error + 'a \<Rightarrow> 'a comp" where
  "liftM r = (\<lambda>v. (r, v))"

definition bindM :: "'a comp \<Rightarrow> ('a \<Rightarrow> 'c comp) \<Rightarrow> 'c comp" where
  "bindM m f = (\<lambda>v. case m v of (Inl e, v') \<Rightarrow> (Inl e, v') | (Inr x, v') \<Rightarrow> f x v')"

fun seqM :: "unit comp list \<Rightarrow> unit comp" where
  "seqM [] = returnM ()"
| "seqM (m # ms) = bindM m (\<lambda>_. seqM ms)"

definition whenM :: "bool \<Rightarrow> unit comp \<Rightarrow> unit comp" where
  "whenM c m = (if c then m else returnM ())"

definition param :: "'b host \<Rightarrow> string \<Rightarrow> nat \<Rightarrow> jsval option \<Rightarrow> jsval comp" where
  "param h name idx fallback = liftM (getNodeParameter h name idx fallback)"

definition setRequestMethod :: "string \<Rightarrow> unit comp" where
  "setRequestMethod m = (\<lambda>v. (Inr (), v\<lparr>requestMethod := m\<rparr>))"

definition setEndpoint :: "string \<Rightarrow> unit comp" where
  "setEndpoint e = (\<lambda>v. (Inr (), v\<lparr>endpoint := e\<rparr>))"

definition assignBody :: "jsval \<Rightarrow> unit comp" where
  "assignBody b = (\<lambda>v. (Inr (), v\<lparr>body := b\<rparr>))"

definition assignQs :: "jsval \<Rightarrow> unit comp" where
  "assignQs q = (\<lambda>v. (Inr (), v\<lparr>qs := q\<rparr>))"

definition assignReturnAll :: "jsval \<Rightarrow> unit comp" where
  "assignReturnAll r = (\<lambda>v. (Inr (), v\<lparr>returnAll := r\<rparr>))"

definition readVar :: "(vars \<Rightarrow> 'a) \<Rightarrow> 'a comp" where
  "readVar f = (\<lambda>v. (Inr (f v), v))"

definition getBody :: "string \<Rightarrow> jsval comp" where
  "getBody k = (\<lambda>v. (getProp (body v) k, v))"

definition setBody :: "string \<Rightarrow> jsval \<Rightarrow> unit comp" where
  "setBody k x = (\<lambda>v. case setProp (body v) k x of
                        Inl e \<Rightarrow> (Inl e, v)
                      | Inr b \<Rightarrow> (Inr (), v\<lparr>body := b\<rparr>))"

definition setQs :: "string \<Rightarrow> jsval \<Rightarrow> unit comp" where
  "setQs k x = (\<lambda>v. case setProp (qs v) k x of
                      Inl e \<Rightarrow> (Inl e, v)
                    | Inr q \<Rightarrow> (Inr (), v\<lparr>qs := q\<rparr>))"

text \<open>
  Modelled from the spec: the helpers \<^verbatim>\<open>githubApiRequest\<close>,
  \<^verbatim>\<open>githubApiRequestAllItems\<close> and \<^verbatim>\<open>getFileSha\<close> live in
  \<^verbatim>\<open>GenericFunctions.ts\<close>, which is not part of the sources. The first makes one GitHub
  call; the second is the all-pages accumulation, kept as one call of its own kind whose
  answer is the accumulated sequence. \<^verbatim>\<open>getFileSha\<close> performs a
  \<^verbatim>\<open>GET contents/{path}\<close>, scoped to the branch through the query when a branch is
  given, and extracts the \<^verbatim>\<open>sha\<close> field of the single-file response; it fails when the
  GET fails and when the response has no \<^verbatim>\<open>sha\<close> of its own (a directory listing).
\<close>

definition githubApiRequest :: "'b host \<Rightarrow> string \<Rightarrow> string \<Rightarrow> jsval \<Rightarrow> jsval \<Rightarrow> jsval comp" where
  "githubApiRequest h m e b q =
     (\<lambda>v. (apiResponse h (calls v) (ApiRequest m e b q), v\<lparr>calls := calls v @ [ApiRequest m e b q]\<rparr>))"

definition githubApiRequestAllItems :: "'b host \<Rightarrow> string \<Rightarrow> string \<Rightarrow> jsval \<Rightarrow> jsval \<Rightarrow> jsval comp" where
  "githubApiRequestAllItems h m e b q =
     (\<lambda>v. (apiResponse h (calls v) (ApiRequestAllItems m e b q),
           v\<lparr>calls := calls v @ [ApiRequestAllItems m e b q]\<rparr>))"

definition contentsEndpoint :: "jsval \<Rightarrow> jsval \<Rightarrow> jsval \<Rightarrow> string" where
  "contentsEndpoint owner repository filePath =
     ''/repos/'' @ js_toString owner @ ''/'' @ js_toString repository @ ''/contents/''
       @ encodeURI (js_toString filePath)"

definition getFileSha :: "'b host \<Rightarrow> jsval \<Rightarrow> jsval \<Rightarrow> jsval \<Rightarrow> jsval \<Rightarrow> jsval comp" where
  "getFileSha h owner repository filePath branch =
     bindM (githubApiRequest h ''GET'' (contentsEndpoint owner repository filePath) (JObj [])
              (if branch = JUndefined then JObj [] else JObj [(''branch'', branch)]))
       (\<lambda>responseData.
          case responseData of
            JObj kvs \<Rightarrow>
              (case map_of kvs ''sha'' of
                 None \<Rightarrow> throwM (NodeOperationError ''Could not get the sha of the file.'')
               | Some JUndefined \<Rightarrow> throwM (NodeOperationError ''Could not get the sha of the file.'')
               | Some sha \<Rightarrow> returnM sha)
          | _ \<Rightarrow> throwM (NodeOperationError ''Could not get the sha of the file.''))"

section \<open>The operation router\<close>

text \<open>
  Each definition below is one branch of the \<^verbatim>\<open>if\<close> ladder of \<^verbatim>\<open>execute\<close>, with
  its statements in the order of the source. \<open>i\<close> is the index of the item.
\<close>

definition repoEndpoint :: "jsval \<Rightarrow> jsval \<Rightarrow> string \<Rightarrow> string" where
  "repoEndpoint owner repository rest =
     ''/repos/'' @ js_toString owner @ ''/'' @ js_toString repository @ rest"

text \<open>The optional \<^verbatim>\<open>author\<close>, \<^verbatim>\<open>committer\<close> and \<^verbatim>\<open>branch\<close> of a commit.\<close>

definition commitFields :: "jsval \<Rightarrow> unit comp" where
  "commitFields additionalParameters =
     seqM [
       bindM (liftM (getProp additionalParameters ''author'')) (\<lambda>author.
         whenM (truthy author) (setBody ''author'' author)),
       bindM (liftM (getProp additionalParameters ''committer'')) (\<lambda>committer.
         whenM (truthy committer) (setBody ''committer'' committer)),
       bindM (liftM (getProp additionalParameters ''branch'')) (\<lambda>branch.
         whenM (truthy branch)
           (bindM (liftM (getProp branch ''branch'')) (\<lambda>inner.
              whenM (truthy inner) (setBody ''branch'' inner))))]"

definition fileContent :: "'b host \<Rightarrow> nat \<Rightarrow> item \<Rightarrow> 'b store \<Rightarrow> unit comp" where
  "fileContent h i it sto =
     bindM (param h ''binaryData'' i None) (\<lambda>binaryData.
       if binaryData = JBool True then
         (case binary it of
            None \<Rightarrow> throwM (NodeOperationError ''No binary data exists on item!'')
          | Some a \<Rightarrow>
              bindM (param h ''binaryPropertyName'' i None) (\<lambda>binaryPropertyName.
                case map_of (deref sto a) (js_toString binaryPropertyName) of
                  None \<Rightarrow>
                    throwM (NodeOperationError
                      (''No binary data property '' @ [CHR 0x22] @ js_toString binaryPropertyName
                         @ [CHR 0x22] @ '' does not exists on item!''))
                | Some b \<Rightarrow> setBody ''content'' (binaryDataOf h b)))
       else
         bindM (param h ''fileContent'' i None) (\<lambda>text.
           bindM (liftM (bufferToBase64 h text)) (\<lambda>c. setBody ''content'' (JStr c))))"

definition fileCreateEdit ::
  "'b host \<Rightarrow> nat \<Rightarrow> item \<Rightarrow> 'b store \<Rightarrow> jsval \<Rightarrow> jsval \<Rightarrow> jsval \<Rightarrow> unit comp" where
  "fileCreateEdit h i it sto operation owner repository =
     bindM (setRequestMethod ''PUT'') (\<lambda>_.
     bindM (param h ''filePath'' i None) (\<lambda>filePath.
     bindM (param h ''additionalParameters'' i (Some (JObj []))) (\<lambda>additionalParameters.
       seqM [
         commitFields additionalParameters,
         whenM (operation = JStr ''edit'')
           (bindM (getBody ''branch'') (\<lambda>branch.
              bindM (getFileSha h owner repository filePath branch) (setBody ''sha''))),
         bindM (param h ''commitMessage'' i None) (setBody ''message''),
         fileContent h i it sto,
         setEndpoint (contentsEndpoint owner repository filePath)])))"

definition fileDelete :: "'b host \<Rightarrow> nat \<Rightarrow> jsval \<Rightarrow> jsval \<Rightarrow> unit comp" where
  "fileDelete h i owner repository =
     bindM (setRequestMethod ''DELETE'') (\<lambda>_.
     bindM (param h ''additionalParameters'' i (Some (JObj []))) (\<lambda>additionalParameters.
     bindM (commitFields additionalParameters) (\<lambda>_.
     bindM (param h ''filePath'' i None) (\<lambda>filePath.
       seqM [
         bindM (param h ''commitMessage'' i None) (setBody ''message''),
         bindM (getBody ''branch'') (\<lambda>branch.
           bindM (getFileSha h owner repository filePath branch) (setBody ''sha'')),
         setEndpoint (contentsEndpoint owner repository filePath)]))))"

definition fileGetList :: "'b host \<Rightarrow> nat \<Rightarrow> jsval \<Rightarrow> jsval \<Rightarrow> unit comp" where
  "fileGetList h i owner repository =
     bindM (setRequestMethod ''GET'') (\<lambda>_.
     bindM (param h ''filePath'' i None) (\<lambda>filePath.
       setEndpoint (contentsEndpoint owner repository filePath)))"

definition fileRoute ::
  "'b host \<Rightarrow> nat \<Rightarrow> item \<Rightarrow> 'b store \<Rightarrow> jsval \<Rightarrow> jsval \<Rightarrow> jsval \<Rightarrow> unit comp" where
  "fileRoute h i it sto operation owner repository =
     (if operation = JStr ''create'' \<or> operation = JStr ''edit''
        then fileCreateEdit h i it sto operation owner repository
      else if operation = JStr ''delete'' then fileDelete h i owner repository
      else if operation = JStr ''get'' \<or> operation = JStr ''list''
        then fileGetList h i owner repository
      else returnM ())"

definition issueCreate :: "'b host \<Rightarrow> nat \<Rightarrow> jsval \<Rightarrow> jsval \<Rightarrow> unit comp" where
  "issueCreate h i owner repository =
     seqM [
       setRequestMethod ''POST'',
       bindM (param h ''title'' i None) (setBody ''title''),
       bindM (param h ''body'' i None) (setBody ''body''),
       bindM (param h ''labels'' i None) (\<lambda>labels.
       bindM (param h ''assignees'' i None) (\<lambda>assignees.
         seqM [
           bindM (liftM (mapProp labels ''label'')) (setBody ''labels''),
           bindM (liftM (mapProp assignees ''assignee'')) (setBody ''assignees'')])),
       setEndpoint (repoEndpoint owner repository ''/issues'')]"

definition issueCreateComment :: "'b host \<Rightarrow> nat \<Rightarrow> jsval \<Rightarrow> jsval \<Rightarrow> unit comp" where
  "issueCreateComment h i owner repository =
     bindM (setRequestMethod ''POST'') (\<lambda>_.
     bindM (param h ''issueNumber'' i None) (\<lambda>issueNumber.
       seqM [
         bindM (param h ''body'' i None) (setBody ''body''),
         setEndpoint (repoEndpoint owner repository
           (''/issues/'' @ js_toString issueNumber @ ''/comments''))]))"

definition issueEdit :: "'b host \<Rightarrow> nat \<Rightarrow> jsval \<Rightarrow> jsval \<Rightarrow> unit comp" where
  "issueEdit h i owner repository =
     bindM (setRequestMethod ''PATCH'') (\<lambda>_.
     bindM (param h ''issueNumber'' i None) (\<lambda>issueNumber.
       seqM [
         bindM (param h ''editFields'' i (Some (JObj []))) assignBody,
         bindM (getBody ''labels'') (\<lambda>labels.
           whenM (labels \<noteq> JUndefined)
             (bindM (liftM (mapProp labels ''label'')) (setBody ''labels''))),
         bindM (getBody ''assignees'') (\<lambda>assignees.
           whenM (assignees \<noteq> JUndefined)
             (bindM (liftM (mapProp assignees ''assignee'')) (setBody ''assignees''))),
         setEndpoint (repoEndpoint owner repository (''/issues/'' @ js_toString issueNumber))]))"

definition issueGet :: "'b host \<Rightarrow> nat \<Rightarrow> jsval \<Rightarrow> jsval \<Rightarrow> unit comp" where
  "issueGet h i owner repository =
     bindM (setRequestMethod ''GET'') (\<lambda>_.
     bindM (param h ''issueNumber'' i None) (\<lambda>issueNumber.
       setEndpoint (repoEndpoint owner repository (''/issues/'' @ js_toString issueNumber))))"

definition issueLock :: "'b host \<Rightarrow> nat \<Rightarrow> jsval \<Rightarrow> jsval \<Rightarrow> unit comp" where
  "issueLock h i owner repository =
     bindM (setRequestMethod ''PUT'') (\<lambda>_.
     bindM (param h ''issueNumber'' i None) (\<lambda>issueNumber.
       seqM [
         bindM (param h ''lockReason'' i None) (setQs ''lock_reason''),
         setEndpoint (repoEndpoint owner repository
           (''/issues/'' @ js_toString issueNumber @ ''/lock''))]))"

definition issueRoute :: "'b host \<Rightarrow> nat \<Rightarrow> jsval \<Rightarrow> jsval \<Rightarrow> jsval \<Rightarrow> unit comp" where
  "issueRoute h i operation owner repository =
     (if operation = JStr ''create'' then issueCreate h i owner repository
      else if operation = JStr ''createComment'' then issueCreateComment h i owner repository
      else if operation = JStr ''edit'' then issueEdit h i owner repository
      else if operation = JStr ''get'' then issueGet h i owner repository
      else if operation = JStr ''lock'' then issueLock h i owner repository
      else returnM ())"

text \<open>
  The reading of \<^verbatim>\<open>returnAll\<close> and \<^verbatim>\<open>limit\<close> that the four paginated operations
  share; both are read at index 0.
\<close>

definition readReturnAll :: "'b host \<Rightarrow> unit comp" where
  "readReturnAll h = bindM (param h ''returnAll'' 0 None) assignReturnAll"

definition limitPerPage :: "'b host \<Rightarrow> unit comp" where
  "limitPerPage h =
     bindM (readVar returnAll) (\<lambda>r.
       whenM (r = JBool False) (bindM (param h ''limit'' 0 None) (setQs ''per_page'')))"

definition releaseCreate :: "'b host \<Rightarrow> nat \<Rightarrow> jsval \<Rightarrow> jsval \<Rightarrow> unit comp" where
  "releaseCreate h i owner repository =
     seqM [
       setRequestMethod ''POST'',
       bindM (param h ''additionalFields'' i (Some (JObj []))) assignBody,
       bindM (param h ''releaseTag'' i None) (setBody ''tag_name''),
       setEndpoint (repoEndpoint owner repository ''/releases'')]"

definition releaseDelete :: "'b host \<Rightarrow> nat \<Rightarrow> jsval \<Rightarrow> jsval \<Rightarrow> unit comp" where
  "releaseDelete h i owner repository =
     bindM (setRequestMethod ''DELETE'') (\<lambda>_.
     bindM (param h ''release_id'' i None) (\<lambda>releaseId.
       setEndpoint (repoEndpoint owner repository (''/releases/'' @ js_toString releaseId))))"

definition releaseGet :: "'b host \<Rightarrow> nat \<Rightarrow> jsval \<Rightarrow> jsval \<Rightarrow> unit comp" where
  "releaseGet h i owner repository =
     bindM (setRequestMethod ''GET'') (\<lambda>_.
     bindM (param h ''release_id'' i None) (\<lambda>releaseId.
       setEndpoint (repoEndpoint owner repository (''/releases/'' @ js_toString releaseId))))"

definition releaseGetAll :: "'b host \<Rightarrow> jsval \<Rightarrow> jsval \<Rightarrow> unit comp" where
  "releaseGetAll h owner repository =
     seqM [
       setRequestMethod ''GET'',
       setEndpoint (repoEndpoint owner repository ''/releases''),
       readReturnAll h,
       limitPerPage h]"

definition releaseUpdate :: "'b host \<Rightarrow> nat \<Rightarrow> jsval \<Rightarrow> jsval \<Rightarrow> unit comp" where
  "releaseUpdate h i owner repository =
     bindM (setRequestMethod ''PATCH'') (\<lambda>_.
     bindM (param h ''release_id'' i None) (\<lambda>releaseId.
       seqM [
         bindM (param h ''additionalFields'' i (Some (JObj []))) assignBody,
         setEndpoint (repoEndpoint owner repository (''/releases/'' @ js_toString releaseId))]))"

text \<open>The release branches are five \<^verbatim>\<open>if\<close> statements in a row, not a ladder.\<close>

definition releaseRoute :: "'b host \<Rightarrow> nat \<Rightarrow> jsval \<Rightarrow> jsval \<Rightarrow> jsval \<Rightarrow> unit comp" where
  "releaseRoute h i operation owner repository =
     seqM [
       whenM (operation = JStr ''create'') (releaseCreate h i owner repository),
       whenM (operation = JStr ''delete'') (releaseDelete h i owner repository),
       whenM (operation = JStr ''get'') (releaseGet h i owner repository),
       whenM (operation = JStr ''getAll'') (releaseGetAll h owner repository),
       whenM (operation = JStr ''update'') (releaseUpdate h i owner repository)]"

definition repositoryGetIssues :: "'b host \<Rightarrow> nat \<Rightarrow> jsval \<Rightarrow> jsval \<Rightarrow> unit comp" where
  "repositoryGetIssues h i owner repository =
     seqM [
       setRequestMethod ''GET'',
       bindM (param h ''getRepositoryIssuesFilters'' i None) assignQs,
       setEndpoint (repoEndpoint owner repository ''/issues''),
       readReturnAll h,
       limitPerPage h]"

definition repositoryRoute :: "'b host \<Rightarrow> nat \<Rightarrow> jsval \<Rightarrow> jsval \<Rightarrow> jsval \<Rightarrow> unit comp" where
  "repositoryRoute h i operation owner repository =
     (if operation = JStr ''listPopularPaths'' then
        seqM [setRequestMethod ''GET'',
              setEndpoint (repoEndpoint owner repository ''/traffic/popular/paths'')]
      else if operation = JStr ''listReferrers'' then
        seqM [setRequestMethod ''GET'',
              setEndpoint (repoEndpoint owner repository ''/traffic/popular/referrers'')]
      else if operation = JStr ''get'' then
        seqM [setRequestMethod ''GET'', setEndpoint (repoEndpoint owner repository [])]
      else if operation = JStr ''getLicense'' then
        seqM [setRequestMethod ''GET'', setEndpoint (repoEndpoint owner repository ''/license'')]
      else if operation = JStr ''getIssues'' then repositoryGetIssues h i owner repository
      else returnM ())"

definition reviewsEndpoint :: "jsval \<Rightarrow> jsval \<Rightarrow> jsval \<Rightarrow> string" where
  "reviewsEndpoint owner repository pullRequestNumber =
     repoEndpoint owner repository (''/pulls/'' @ js_toString pullRequestNumber @ ''/reviews'')"

definition reviewGet :: "'b host \<Rightarrow> nat \<Rightarrow> jsval \<Rightarrow> jsval \<Rightarrow> unit comp" where
  "reviewGet h i owner repository =
     bindM (setRequestMethod ''GET'') (\<lambda>_.
     bindM (param h ''reviewId'' i None) (\<lambda>reviewId.
     bindM (param h ''pullRequestNumber'' i None) (\<lambda>pullRequestNumber.
       setEndpoint (reviewsEndpoint owner repository pullRequestNumber
                      @ ''/'' @ js_toString reviewId))))"

definition reviewGetAll :: "'b host \<Rightarrow> nat \<Rightarrow> jsval \<Rightarrow> jsval \<Rightarrow> unit comp" where
  "reviewGetAll h i owner repository =
     bindM (setRequestMethod ''GET'') (\<lambda>_.
     bindM (readReturnAll h) (\<lambda>_.
     bindM (param h ''pullRequestNumber'' i None) (\<lambda>pullRequestNumber.
       seqM [
         limitPerPage h,
         setEndpoint (reviewsEndpoint owner repository pullRequestNumber)])))"

definition reviewCreate :: "'b host \<Rightarrow> nat \<Rightarrow> jsval \<Rightarrow> jsval \<Rightarrow> unit comp" where
  "reviewCreate h i owner repository =
     bindM (setRequestMethod ''POST'') (\<lambda>_.
     bindM (param h ''pullRequestNumber'' i None) (\<lambda>pullRequestNumber.
     bindM (param h ''additionalFields'' i None) (\<lambda>additionalFields.
       seqM [
         bindM (readVar body) (\<lambda>b.
           case b of
             JObj kvs \<Rightarrow> assignBody (JObj (objectAssign kvs (ownEntries additionalFields)))
           | _ \<Rightarrow> returnM ()),
         bindM (param h ''event'' i None) (\<lambda>event.
           bindM (liftM (snakeCase_js event)) (\<lambda>s. setBody ''event'' (JStr (toUpperCase s)))),
         bindM (getBody ''event'') (\<lambda>event.
           whenM (event = JStr ''REQUEST_CHANGES'' \<or> event = JStr ''COMMENT'')
             (bindM (param h ''body'' i None) (setBody ''body''))),
         setEndpoint (reviewsEndpoint owner repository pullRequestNumber)])))"

definition reviewUpdate :: "'b host \<Rightarrow> nat \<Rightarrow> jsval \<Rightarrow> jsval \<Rightarrow> unit comp" where
  "reviewUpdate h i owner repository =
     bindM (setRequestMethod ''PUT'') (\<lambda>_.
     bindM (param h ''pullRequestNumber'' i None) (\<lambda>pullRequestNumber.
     bindM (param h ''reviewId'' i None) (\<lambda>reviewId.
       seqM [
         bindM (param h ''body'' i None) (setBody ''body''),
         setEndpoint (reviewsEndpoint owner repository pullRequestNumber
                        @ ''/'' @ js_toString reviewId)])))"

definition reviewRoute :: "'b host \<Rightarrow> nat \<Rightarrow> jsval \<Rightarrow> jsval \<Rightarrow> jsval \<Rightarrow> unit comp" where
  "reviewRoute h i operation owner repository =
     (if operation = JStr ''get'' then reviewGet h i owner repository
      else if operation = JStr ''getAll'' then reviewGetAll h i owner repository
      else if operation = JStr ''create'' then reviewCreate h i owner repository
      else if operation = JStr ''update'' then reviewUpdate h i owner repository
      else returnM ())"

definition userGetRepositories :: "'b host \<Rightarrow> jsval \<Rightarrow> unit comp" where
  "userGetRepositories h owner =
     seqM [
       setRequestMethod ''GET'',
       setEndpoint (''/users/'' @ js_toString owner @ ''/repos''),
       readReturnAll h,
       limitPerPage h]"

definition userInvite :: "'b host \<Rightarrow> nat \<Rightarrow> unit comp" where
  "userInvite h i =
     bindM (setRequestMethod ''POST'') (\<lambda>_.
     bindM (param h ''organization'' i None) (\<lambda>org.
       seqM [
         setEndpoint (''/orgs/'' @ js_toString org @ ''/invitations''),
         bindM (param h ''email'' i None) (setBody ''email'')]))"

definition userRoute :: "'b host \<Rightarrow> nat \<Rightarrow> jsval \<Rightarrow> jsval \<Rightarrow> unit comp" where
  "userRoute h i operation owner =
     (if operation = JStr ''getRepositories'' then userGetRepositories h owner
      else if operation = JStr ''invite'' then userInvite h i
      else returnM ())"

text \<open>\<^verbatim>\<open>`${resource}:${operation}`\<close>\<close>

definition fullOperation :: "jsval \<Rightarrow> jsval \<Rightarrow> string" where
  "fullOperation resource operation = js_toString resource @ '':'' @ js_toString operation"

text \<open>
  The head of the loop body: the variables are reset, \<^verbatim>\<open>owner\<close> and
  \<^verbatim>\<open>repository\<close> are read at index \<open>i\<close> for the operations that have them, and the
  resource selects the branch.
\<close>

definition resetValues :: "unit comp" where
  "resetValues =
     (\<lambda>v. (Inr (), v\<lparr>requestMethod := ''GET'', endpoint := [], body := JObj [], qs := JObj []\<rparr>))"

definition route :: "'b host \<Rightarrow> jsval \<Rightarrow> jsval \<Rightarrow> nat \<Rightarrow> item \<Rightarrow> 'b store \<Rightarrow> unit comp" where
  "route h resource operation i it sto =
     bindM resetValues (\<lambda>_.
     bindM (if fullOperation resource operation \<noteq> ''user:invite''
            then param h ''owner'' i None else returnM (JStr [])) (\<lambda>owner.
     bindM (if fullOperation resource operation \<noteq> ''user:getRepositories''
               \<and> fullOperation resource operation \<noteq> ''user:invite''
            then param h ''repository'' i None else returnM (JStr [])) (\<lambda>repository.
       if resource = JStr ''file'' then fileRoute h i it sto operation owner repository
       else if resource = JStr ''issue'' then issueRoute h i operation owner repository
       else if resource = JStr ''release'' then releaseRoute h i operation owner repository
       else if resource = JStr ''repository'' then repositoryRoute h i operation owner repository
       else if resource = JStr ''review'' then reviewRoute h i operation owner repository
       else if resource = JStr ''user'' then userRoute h i operation owner
       else throwM (NodeOperationError
              (''The resource '' @ [CHR 0x22] @ js_toString resource @ [CHR 0x22]
                 @ '' is not known!'')))))"

section \<open>The response reshaper and the run\<close>

text \<open>Operations which overwrite the returned data.\<close>

definition overwriteDataOperations :: "string list" where
  "overwriteDataOperations =
     [''file:create'', ''file:delete'', ''file:edit'', ''file:get'',
      ''issue:create'', ''issue:createComment'', ''issue:edit'', ''issue:get'',
      ''release:create'', ''release:delete'', ''release:get'', ''release:update'',
      ''repository:get'', ''repository:getLicense'', ''repository:getProfile'',
      ''review:create'', ''review:get'', ''review:update'',
      ''user:invite'']"

text \<open>
  Operations which overwrite the returned data and return arrays, which have to be merged
  with the data of other items.
\<close>

definition overwriteDataOperationsArray :: "string list" where
  "overwriteDataOperationsArray =
     [''file:list'', ''repository:getIssues'', ''repository:listPopularPaths'',
      ''repository:listReferrers'', ''user:getRepositories'', ''release:getAll'',
      ''review:getAll'']"

text \<open>
  All the variables of \<^verbatim>\<open>execute\<close>: the input items (the array is updated in place),
  the store of attachment mappings, the accumulated \<^verbatim>\<open>returnData\<close>, and the variables
  of the request-building code.
\<close>

record 'b state =
  items :: "item list"
  store :: "'b store"
  returnData :: "jsval list"
  variables :: vars

text \<open>
  What \<^verbatim>\<open>execute\<close> hands back: \<^verbatim>\<open>[this.helpers.returnJsonArray(returnData)]\<close> or
  \<^verbatim>\<open>this.prepareOutputData(items)\<close>.
\<close>

datatype outputData =
    ReturnJsonArray "jsval list"
  | PrepareOutputData "item list"

datatype outcome =
    Returns outputData
  | Throws error

text \<open>The call that follows the routing: all pages when \<^verbatim>\<open>returnAll === true\<close>.\<close>

definition request :: "'b host \<Rightarrow> jsval comp" where
  "request h =
     bindM (readVar (\<lambda>v. v)) (\<lambda>v.
       if returnAll v = JBool True
       then githubApiRequestAllItems h (requestMethod v) (endpoint v) (body v) (qs v)
       else githubApiRequest h (requestMethod v) (endpoint v) (body v) (qs v))"

fun isArray :: "jsval \<Rightarrow> bool" where
  "isArray (JArr xs) = True"
| "isArray (JArrProps xs ps) = True"
| "isArray v = False"

text \<open>
  \<^verbatim>\<open>file:get\<close> with \<^verbatim>\<open>asBinaryProperty\<close>: the new item has the \<^verbatim>\<open>json\<close> of item
  \<open>i\<close> and a new attachment mapping, which gets the entries of the old mapping and then
  the prepared binary data under the property name. The result is the item array with
  the new item at \<open>i\<close>, and the store with the new mapping at its end; when a helper
  throws, neither has changed.
\<close>

definition attachBinary ::
  "'b host \<Rightarrow> nat \<Rightarrow> item list \<Rightarrow> 'b store \<Rightarrow> jsval \<Rightarrow> error + item list \<times> 'b store" where
  "attachBinary h i its sto responseData =
     (if isArray responseData
      then Inl (NodeOperationError ''File Path is a folder, not a file.'')
      else
        bindS (getNodeParameter h ''binaryPropertyName'' i None) (\<lambda>binaryPropertyName.
        bindS (getProp responseData ''content'') (\<lambda>content.
        bindS (bufferFromBase64 h content) (\<lambda>buffer.
        bindS (getProp responseData ''path'') (\<lambda>path.
        bindS (prepareBinaryData h buffer path) (\<lambda>b.
          Inr (its[i := \<lparr>json = json (its ! i), binary = Some (length sto)\<rparr>],
               sto @ [AList.update (js_toString binaryPropertyName) b
                        (case binary (its ! i) of
                           None \<Rightarrow> []
                         | Some a \<Rightarrow> objectAssign [] (deref sto a))])))))))"

definition binaryDelivery ::
  "'b host \<Rightarrow> string \<Rightarrow> nat \<Rightarrow> item list \<Rightarrow> 'b store \<Rightarrow> jsval
     \<Rightarrow> error + (item list \<times> 'b store) option" where
  "binaryDelivery h fullOp i its sto responseData =
     (if fullOp = ''file:get'' then
        bindS (getNodeParameter h ''asBinaryProperty'' i None) (\<lambda>asBinaryProperty.
          if asBinaryProperty = JBool True
          then bindS (attachBinary h i its sto responseData) (\<lambda>r. Inr (Some r))
          else Inr None)
      else Inr None)"

text \<open>The accumulation of the response into \<^verbatim>\<open>returnData\<close>.\<close>

definition reshape :: "string \<Rightarrow> jsval \<Rightarrow> jsval list \<Rightarrow> error + jsval list" where
  "reshape fullOp responseData rd =
     (if fullOp \<in> set overwriteDataOperations then Inr (rd @ [responseData])
      else if fullOp \<in> set overwriteDataOperationsArray
        then bindS (arrayLike responseData) (\<lambda>xs. Inr (rd @ xs))
      else Inr rd)"

text \<open>
  The \<^verbatim>\<open>try\<close> block for item \<open>i\<close>: it completes with the new \<^verbatim>\<open>returnData\<close>,
  returns from \<^verbatim>\<open>execute\<close> with the item array, or throws; the variables as they are
  at that point come with each.
\<close>

datatype 'b attempt =
    Completed "jsval list" vars
  | EarlyReturn "item list" "'b store" vars
  | Thrown error vars

definition routeAndRequest ::
  "'b host \<Rightarrow> jsval \<Rightarrow> jsval \<Rightarrow> nat \<Rightarrow> item \<Rightarrow> 'b store \<Rightarrow> jsval comp" where
  "routeAndRequest h resource operation i it sto =
     bindM (route h resource operation i it sto) (\<lambda>_. request h)"

definition tryBody :: "'b host \<Rightarrow> jsval \<Rightarrow> jsval \<Rightarrow> nat \<Rightarrow> 'b state \<Rightarrow> 'b attempt" where
  "tryBody h resource operation i st =
     (case routeAndRequest h resource operation i (items st ! i) (store st) (variables st) of
        (Inl e, v) \<Rightarrow> Thrown e v
      | (Inr responseData, v) \<Rightarrow>
          (case binaryDelivery h (fullOperation resource operation) i (items st) (store st)
                  responseData of
             Inl e \<Rightarrow> Thrown e v
           | Inr (Some (its, sto)) \<Rightarrow> EarlyReturn its sto v
           | Inr None \<Rightarrow>
               (case reshape (fullOperation resource operation)
                       (if fullOperation resource operation = ''release:delete''
                        then JObj [(''success'', JBool True)] else responseData)
                       (returnData st) of
                  Inl e \<Rightarrow> Thrown e v
                | Inr rd \<Rightarrow> Completed rd v)))"

datatype 'b step =
    Next "'b state"
  | Return outputData "'b state"
  | Throw error "'b state"

text \<open>The \<^verbatim>\<open>catch\<close> block.\<close>

definition catchBlock :: "'b host \<Rightarrow> string \<Rightarrow> nat \<Rightarrow> error \<Rightarrow> 'b state \<Rightarrow> 'b step" where
  "catchBlock h fullOp i e st =
     (if continueOnFail h then
        (if fullOp \<in> set overwriteDataOperations \<or> fullOp \<in> set overwriteDataOperationsArray
         then Next (st\<lparr>returnData := returnData st @ [JObj [(''error'', JStr (message e))]]\<rparr>)
         else Next (st\<lparr>items :=
                 (items st)[i := (items st ! i)\<lparr>json := JObj [(''error'', JStr (message e))]\<rparr>]\<rparr>))
      else Throw e st)"

definition processItem :: "'b host \<Rightarrow> jsval \<Rightarrow> jsval \<Rightarrow> nat \<Rightarrow> 'b state \<Rightarrow> 'b step" where
  "processItem h resource operation i st =
     (case tryBody h resource operation i st of
        Completed rd v \<Rightarrow> Next (st\<lparr>returnData := rd, variables := v\<rparr>)
      | EarlyReturn its sto v \<Rightarrow>
          Return (PrepareOutputData its) (st\<lparr>items := its, store := sto, variables := v\<rparr>)
      | Thrown e v \<Rightarrow>
          catchBlock h (fullOperation resource operation) i e (st\<lparr>variables := v\<rparr>))"

text \<open>What \<^verbatim>\<open>execute\<close> returns after the loop.\<close>

definition finalOutput :: "string \<Rightarrow> 'b state \<Rightarrow> outputData" where
  "finalOutput fullOp st =
     (if fullOp \<in> set overwriteDataOperations \<or> fullOp \<in> set overwriteDataOperationsArray
      then ReturnJsonArray (returnData st)
      else PrepareOutputData (items st))"

text \<open>\<^verbatim>\<open>for (let i = 0; i < items.length; i++)\<close>, from index \<open>i\<close> on.\<close>

function loop :: "'b host \<Rightarrow> jsval \<Rightarrow> jsval \<Rightarrow> nat \<Rightarrow> 'b state \<Rightarrow> outcome \<times> 'b state" where
  "loop h resource operation i st =
     (if i < length (items st) then
        (case processItem h resource operation i st of
           Next st' \<Rightarrow> loop h resource operation (Suc i) st'
         | Return out st' \<Rightarrow> (Returns out, st')
         | Throw e st' \<Rightarrow> (Throws e, st'))
      else (Returns (finalOutput (fullOperation resource operation) st), st))"
  by pat_completeness auto
termination
proof (relation "measure (\<lambda>(h, resource, operation, i, st). length (items st) - i)")
  fix h :: "'b host" and resource operation i and st st' :: "'b state"
  assume "i < length (items st)" and "processItem h resource operation i st = Next st'"
  then have "length (items st') = length (items st)"
    by (auto simp: processItem_def catchBlock_def split: attempt.splits if_splits)
  with \<open>i < length (items st)\<close>
  show "((h, resource, operation, Suc i, st'), (h, resource, operation, i, st))
          \<in> measure (\<lambda>(h, resource, operation, i, st). length (items st) - i)"
    by simp
qed simp

declare loop.simps [simp del]

text \<open>
  \<^verbatim>\<open>execute\<close> on the input items: \<^verbatim>\<open>returnData\<close> starts empty and \<^verbatim>\<open>returnAll\<close>
  as \<^verbatim>\<open>false\<close>; the request variables have no value until the loop resets them. The
  operation and the resource are read once, at index 0, outside the \<^verbatim>\<open>try\<close>.
\<close>

definition initialState :: "item list \<Rightarrow> 'b store \<Rightarrow> 'b state" where
  "initialState its sto =
     \<lparr>items = its, store = sto, returnData = [],
      variables = \<lparr>requestMethod = [], endpoint = [], body = JUndefined, qs = JUndefined,
                   returnAll = JBool False, calls = []\<rparr>\<rparr>"

definition execute :: "'b host \<Rightarrow> item list \<Rightarrow> 'b store \<Rightarrow> outcome \<times> 'b state" where
  "execute h its sto =
     (case getNodeParameter h ''operation'' 0 None of
        Inl e \<Rightarrow> (Throws e, initialState its sto)
      | Inr operation \<Rightarrow>
          (case getNodeParameter h ''resource'' 0 None of
             Inl e \<Rightarrow> (Throws e, initialState its sto)
           | Inr resource \<Rightarrow> loop h resource operation 0 (initialState its sto)))"

section \<open>Definitions for the statements\<close>

text \<open>
  The three response shapes of the specification, read off the two membership lists: an
  operation of the first list replaces the item by the response, one of the second list
  appends the elements of the response to the output of the run, every other one passes
  the item through.
\<close>

datatype responseShape = ReplaceSingle | ReplaceFlatten | PassThrough

definition responseShapeOf :: "string \<Rightarrow> responseShape" where
  "responseShapeOf fullOp =
     (if fullOp \<in> set overwriteDataOperationsArray then ReplaceFlatten
      else if fullOp \<in> set overwriteDataOperations then ReplaceSingle
      else PassThrough)"

text \<open>
  The outcome of a statement as a pair of conditions: \<open>Q\<close> on the value and the variables
  when it completes, \<open>E\<close> on the error and the variables when it throws.
\<close>

definition postM ::
  "'a comp \<Rightarrow> ('a \<Rightarrow> vars \<Rightarrow> bool) \<Rightarrow> (error \<Rightarrow> vars \<Rightarrow> bool) \<Rightarrow> vars \<Rightarrow> bool" where
  "postM m Q E v = (case m v of (Inl e, v') \<Rightarrow> E e v' | (Inr x, v') \<Rightarrow> Q x v')"

text \<open>
  The text that a template literal makes of the parameter \<open>name\<close> at index \<open>i\<close> (empty
  when the parameter cannot be read).
\<close>

definition paramText :: "'b host \<Rightarrow> string \<Rightarrow> nat \<Rightarrow> string" where
  "paramText h name i =
     (case getNodeParameter h name i None of Inl e \<Rightarrow> [] | Inr v \<Rightarrow> js_toString v)"

text \<open>
  A host for concrete runs: the parameters of index \<open>idx\<close> are the entries of \<open>ps idx\<close>
  (a missing parameter gives the fallback, or throws when there is none), the API answers
  by \<open>api\<close>, a buffer is the string itself, and the reference to prepared binary data is
  the length of the buffer.
\<close>

definition demoHost ::
  "bool \<Rightarrow> (nat \<Rightarrow> (string \<times> jsval) list) \<Rightarrow> (call list \<Rightarrow> call \<Rightarrow> error + jsval) \<Rightarrow> nat host" where
  "demoHost cof ps api =
     \<lparr>continueOnFail = cof,
      getNodeParameter = (\<lambda>name idx fallback.
        case map_of (ps idx) name of
          Some x \<Rightarrow> Inr x
        | None \<Rightarrow> (case fallback of
                     Some d \<Rightarrow> Inr d
                   | None \<Rightarrow> Inl (UpstreamError (''Could not get parameter '' @ name)))),
      apiResponse = api,
      bufferToBase64 = (\<lambda>x. case x of JStr s \<Rightarrow> Inr s | _ \<Rightarrow> Inl (TypeError ''not a string'')),
      bufferFromBase64 = (\<lambda>x. case x of JStr s \<Rightarrow> Inr s | _ \<Rightarrow> Inl (TypeError ''not a string'')),
      prepareBinaryData = (\<lambda>buffer path. Inr (length buffer)),
      binaryDataOf = (\<lambda>b. JStr (string_of_nat b))\<rparr>"

definition startVars :: vars where
  "startVars = variables (initialState [] ([] :: nat store))"


text \<open>The parameters of the concrete runs on issues.\<close>

definition issueDemoParams :: "nat \<Rightarrow> (string \<times> jsval) list" where
  "issueDemoParams idx =
     [(''owner'', JStr ''octocat''), (''repository'', JStr ''hello''),
      (''title'', JStr ''Bug''), (''body'', JStr ''It fails''),
      (''labels'', JArr [JObj [(''label'', JStr ''a'')], JObj [(''label'', JStr ''b'')]]),
      (''assignees'', JArr [JObj [(''assignee'', JStr ''mona'')]]),
      (''issueNumber'', JNum 7),
      (''editFields'',
         JObj [(''title'', JStr ''New''),
               (''labels'', JArr [JObj [(''label'', JStr ''a'')], JObj [(''label'', JStr ''b'')]])])]"

text \<open>
  The table of section 4.1 of the specification: for each resource and operation the
  HTTP method and the endpoint, with the owner, the repository and the identifiers of
  item \<open>i\<close> put in as their text, and the file path passed through \<^verbatim>\<open>encodeURI\<close>.
\<close>

definition repoPath :: "'b host \<Rightarrow> nat \<Rightarrow> string" where
  "repoPath h i = ''/repos/'' @ paramText h ''owner'' i @ ''/'' @ paramText h ''repository'' i"

definition contentsPath :: "'b host \<Rightarrow> nat \<Rightarrow> string" where
  "contentsPath h i = repoPath h i @ ''/contents/'' @ encodeURI (paramText h ''filePath'' i)"

definition issuePath :: "'b host \<Rightarrow> nat \<Rightarrow> string" where
  "issuePath h i = repoPath h i @ ''/issues/'' @ paramText h ''issueNumber'' i"

definition releasePath :: "'b host \<Rightarrow> nat \<Rightarrow> string" where
  "releasePath h i = repoPath h i @ ''/releases/'' @ paramText h ''release_id'' i"

definition reviewsPath :: "'b host \<Rightarrow> nat \<Rightarrow> string" where
  "reviewsPath h i = repoPath h i @ ''/pulls/'' @ paramText h ''pullRequestNumber'' i @ ''/reviews''"

definition reviewPath :: "'b host \<Rightarrow> nat \<Rightarrow> string" where
  "reviewPath h i = reviewsPath h i @ ''/'' @ paramText h ''reviewId'' i"

definition routeTable :: "'b host \<Rightarrow> nat \<Rightarrow> ((string \<times> string) \<times> string \<times> string) list" where
  "routeTable h i =
     [((''file'', ''create''), ''PUT'', contentsPath h i),
      ((''file'', ''edit''), ''PUT'', contentsPath h i),
      ((''file'', ''delete''), ''DELETE'', contentsPath h i),
      ((''file'', ''get''), ''GET'', contentsPath h i),
      ((''file'', ''list''), ''GET'', contentsPath h i),
      ((''issue'', ''create''), ''POST'', repoPath h i @ ''/issues''),
      ((''issue'', ''createComment''), ''POST'', issuePath h i @ ''/comments''),
      ((''issue'', ''edit''), ''PATCH'', issuePath h i),
      ((''issue'', ''get''), ''GET'', issuePath h i),
      ((''issue'', ''lock''), ''PUT'', issuePath h i @ ''/lock''),
      ((''release'', ''create''), ''POST'', repoPath h i @ ''/releases''),
      ((''release'', ''delete''), ''DELETE'', releasePath h i),
      ((''release'', ''get''), ''GET'', releasePath h i),
      ((''release'', ''getAll''), ''GET'', repoPath h i @ ''/releases''),
      ((''release'', ''update''), ''PATCH'', releasePath h i),
      ((''repository'', ''get''), ''GET'', repoPath h i),
      ((''repository'', ''getLicense''), ''GET'', repoPath h i @ ''/license''),
      ((''repository'', ''getIssues''), ''GET'', repoPath h i @ ''/issues''),
      ((''repository'', ''listPopularPaths''), ''GET'', repoPath h i @ ''/traffic/popular/paths''),
      ((''repository'', ''listReferrers''), ''GET'',
         repoPath h i @ ''/traffic/popular/referrers''),
      ((''review'', ''get''), ''GET'', reviewPath h i),
      ((''review'', ''getAll''), ''GET'', reviewsPath h i),
      ((''review'', ''create''), ''POST'', reviewsPath h i),
      ((''review'', ''update''), ''PUT'', reviewPath h i),
      ((''user'', ''getRepositories''), ''GET'', ''/users/'' @ paramText h ''owner'' i @ ''/repos''),
      ((''user'', ''invite''), ''POST'',
         ''/orgs/'' @ paramText h ''organization'' i @ ''/invitations'')]"

text \<open>
  A statement that leaves the method and the endpoint of the request as they are.
\<close>

definition keepsRoute :: "'a comp \<Rightarrow> bool" where
  "keepsRoute m =
     (\<forall>v r v'. m v = (r, v') \<longrightarrow> requestMethod v' = requestMethod v \<and> endpoint v' = endpoint v)"

text \<open>
  The escaping of a path segment that leaves no reserved character as it is: every byte
  other than a letter, a digit or one of \<^verbatim>\<open>-_.~\<close> becomes \<^verbatim>\<open>%XX\<close>.
\<close>

definition escapeSegment :: "string \<Rightarrow> string" where
  "escapeSegment s =
     concat (map (\<lambda>c. if c \<in> set (lower_chars @ upper_chars @ digit_chars @ ''-_.~'')
                        then [c] else percent_byte c) s)"

text \<open>
  The parameters of the concrete runs that go through every operation. The owner, and
  \<^verbatim>\<open>returnAll\<close> and \<^verbatim>\<open>limit\<close>, differ between index 0 and the other indices.
\<close>

definition nodeDemoParams :: "nat \<Rightarrow> (string \<times> jsval) list" where
  "nodeDemoParams idx =
     [(''owner'', JStr (if idx = 0 then ''octocat'' else ''hubot'')),
      (''repository'', JStr ''hello''),
      (''returnAll'', JBool (idx \<noteq> 0)),
      (''limit'', JNum (if idx = 0 then 50 else 5)),
      (''filePath'', JStr ''docs/read me.md''),
      (''commitMessage'', JStr ''update''),
      (''binaryData'', JBool False),
      (''fileContent'', JStr ''hi''),
      (''asBinaryProperty'', JBool False),
      (''title'', JStr ''Bug''), (''body'', JStr ''It fails''),
      (''labels'', JArr [JObj [(''label'', JStr ''a'')]]),
      (''assignees'', JArr []),
      (''issueNumber'', JNum 7),
      (''lockReason'', JStr ''spam''),
      (''additionalFields'', JObj []),
      (''releaseTag'', JStr ''v1''),
      (''release_id'', JNum 3),
      (''getRepositoryIssuesFilters'', JObj [(''state'', JStr ''open'')]),
      (''reviewId'', JNum 9),
      (''pullRequestNumber'', JNum 12),
      (''event'', JStr ''approve''),
      (''organization'', JStr ''acme''),
      (''email'', JStr ''mona@example.com'')]"

text \<open>
  An API for the concrete runs: a single request is answered by a file object, the
  all-pages helper by a list.
\<close>

definition demoApi :: "call list \<Rightarrow> call \<Rightarrow> error + jsval" where
  "demoApi cs c =
     (case c of
        ApiRequest m e b q \<Rightarrow>
          Inr (JObj [(''sha'', JStr ''abc''), (''content'', JStr ''aGk=''), (''path'', JStr ''read me.md'')])
      | ApiRequestAllItems m e b q \<Rightarrow> Inr (JArr [JNum 1, JNum 2, JNum 3]))"

definition demoItem :: item where
  "demoItem = \<lparr>json = JObj [(''n'', JNum 1)], binary = None\<rparr>"

text \<open>The four paginated operations.\<close>

definition paginatedOperations :: "(string \<times> string) list" where
  "paginatedOperations =
     [(''release'', ''getAll''), (''repository'', ''getIssues''), (''review'', ''getAll''),
      (''user'', ''getRepositories'')]"

text \<open>
  The call that \<open>request\<close> makes from the variables: the all-pages helper when
  \<^verbatim>\<open>returnAll\<close> is \<^verbatim>\<open>true\<close>, one request otherwise.
\<close>

definition callOf :: "vars \<Rightarrow> call" where
  "callOf v =
     (if returnAll v = JBool True
      then ApiRequestAllItems (requestMethod v) (endpoint v) (body v) (qs v)
      else ApiRequest (requestMethod v) (endpoint v) (body v) (qs v))"

text \<open>
  The host \<open>h\<close> with \<^verbatim>\<open>returnAll\<close> and \<^verbatim>\<open>limit\<close> replaced, at every index other
  than 0, by what \<open>other\<close> gives.
\<close>

definition overrideLater ::
  "'b host \<Rightarrow> (string \<Rightarrow> nat \<Rightarrow> jsval option \<Rightarrow> error + jsval) \<Rightarrow> 'b host" where
  "overrideLater h other =
     h\<lparr>getNodeParameter := (\<lambda>name idx fallback.
          if (name = ''returnAll'' \<or> name = ''limit'') \<and> idx \<noteq> 0 then other name idx fallback
          else getNodeParameter h name idx fallback)\<rparr>"

text \<open>An API that answers one request by a page of two elements and the all-pages helper by three.\<close>

definition pageApi :: "call list \<Rightarrow> call \<Rightarrow> error + jsval" where
  "pageApi cs c =
     (case c of
        ApiRequest m e b q \<Rightarrow> Inr (JArr [JStr ''r1'', JStr ''r2''])
      | ApiRequestAllItems m e b q \<Rightarrow> Inr (JArr [JStr ''r1'', JStr ''r2'', JStr ''r3'']))"

text \<open>
  The branch that the additional parameters of a file operation supply:
  \<^verbatim>\<open>additionalParameters.branch.branch\<close> when it and \<^verbatim>\<open>additionalParameters.branch\<close>
  are truthy, \<^verbatim>\<open>undefined\<close> otherwise.
\<close>

definition branchOf :: "jsval \<Rightarrow> jsval" where
  "branchOf additionalParameters =
     (case getProp additionalParameters ''branch'' of
        Inl e \<Rightarrow> JUndefined
      | Inr branch \<Rightarrow>
          if truthy branch then
            (case getProp branch ''branch'' of
               Inl e \<Rightarrow> JUndefined
             | Inr inner \<Rightarrow> if truthy inner then inner else JUndefined)
          else JUndefined)"

text \<open>The call of the SHA lookup, and the \<^verbatim>\<open>sha\<close> that a response carries.\<close>

definition shaLookup :: "jsval \<Rightarrow> jsval \<Rightarrow> jsval \<Rightarrow> jsval \<Rightarrow> call" where
  "shaLookup owner repository filePath branch =
     ApiRequest ''GET'' (contentsEndpoint owner repository filePath) (JObj [])
       (if branch = JUndefined then JObj [] else JObj [(''branch'', branch)])"

definition shaOf :: "jsval \<Rightarrow> jsval option" where
  "shaOf responseData =
     (case responseData of
        JObj kvs \<Rightarrow>
          (case map_of kvs ''sha'' of
             None \<Rightarrow> None
           | Some JUndefined \<Rightarrow> None
           | Some sha \<Rightarrow> Some sha)
      | _ \<Rightarrow> None)"

text \<open>
  A statement that makes no call, leaves the method and \<^verbatim>\<open>returnAll\<close> as they are, and
  leaves the entry \<open>k\<close> of a body that is an object as it is.
\<close>

definition keepsKey :: "string \<Rightarrow> 'a comp \<Rightarrow> bool" where
  "keepsKey k m =
     (\<forall>v r v'. m v = (r, v') \<longrightarrow>
        calls v' = calls v \<and> requestMethod v' = requestMethod v \<and> returnAll v' = returnAll v
        \<and> (\<forall>kvs. body v = JObj kvs \<longrightarrow> (\<exists>kvs'. body v' = JObj kvs' \<and> map_of kvs' k = map_of kvs k)))"

text \<open>The parameters of the concrete runs of \<^verbatim>\<open>file:get\<close> with the attachment flag.\<close>

definition binaryDemoParams :: "nat \<Rightarrow> (string \<times> jsval) list" where
  "binaryDemoParams idx =
     (''asBinaryProperty'', JBool True) # (''binaryPropertyName'', JStr ''data'')
       # nodeDemoParams idx"

text \<open>An item that has one attachment, whose mapping is at address 0 of the store.\<close>

definition attachedItem :: item where
  "attachedItem = \<lparr>json = JObj [(''n'', JNum 1)], binary = Some 0\<rparr>"

definition attachedStore :: "nat store" where
  "attachedStore = [[(''old'', 7)]]"

text \<open>The parameters of a node set to \<^verbatim>\<open>file:get\<close> with the attachment switched on.\<close>

definition fileGetParams :: "nat \<Rightarrow> (string \<times> jsval) list" where
  "fileGetParams idx =
     (''operation'', JStr ''get'') # (''resource'', JStr ''file'') # binaryDemoParams idx"

text \<open>
  The parameters of a node set to the given resource and operation, and an API whose
  second call of a run fails while every other call answers with the number of calls made
  before it.
\<close>

definition runParams :: "string \<Rightarrow> string \<Rightarrow> nat \<Rightarrow> (string \<times> jsval) list" where
  "runParams resource operation idx =
     (''operation'', JStr operation) # (''resource'', JStr resource) # nodeDemoParams idx"

definition failSecondApi :: "call list \<Rightarrow> call \<Rightarrow> error + jsval" where
  "failSecondApi cs c =
     (if length cs = 1 then Inl (UpstreamError ''Not Found'')
      else Inr (JObj [(''id'', JNum (int (length cs)))]))"

section \<open>Rules for the outcome of a statement\<close>

lemma postM_returnM [simp]: "postM (returnM x) Q E v = Q x v"
  by (simp add: postM_def returnM_def)

lemma postM_throwM [simp]: "postM (throwM e) Q E v = E e v"
  by (simp add: postM_def throwM_def)

lemma postM_liftM [simp]:
  "postM (liftM r) Q E v = (case r of Inl e \<Rightarrow> E e v | Inr x \<Rightarrow> Q x v)"
  by (simp add: postM_def liftM_def split: sum.splits)

lemma postM_bindM [simp]: "postM (bindM m f) Q E v = postM m (\<lambda>x. postM (f x) Q E) E v"
  by (simp add: postM_def bindM_def split: sum.splits prod.splits)

lemma postM_param [simp]:
  "postM (param h name idx fb) Q E v =
     (case getNodeParameter h name idx fb of Inl e \<Rightarrow> E e v | Inr x \<Rightarrow> Q x v)"
  by (simp add: param_def)

lemma postM_whenM [simp]: "postM (whenM c m) Q E v = (if c then postM m Q E v else Q () v)"
  by (simp add: whenM_def)

lemma postM_readVar [simp]: "postM (readVar f) Q E v = Q (f v) v"
  by (simp add: postM_def readVar_def)

lemma postM_setRequestMethod [simp]:
  "postM (setRequestMethod m) Q E v = Q () (v\<lparr>requestMethod := m\<rparr>)"
  by (simp add: postM_def setRequestMethod_def)

lemma postM_setEndpoint [simp]: "postM (setEndpoint e) Q E v = Q () (v\<lparr>endpoint := e\<rparr>)"
  by (simp add: postM_def setEndpoint_def)

lemma postM_assignBody [simp]: "postM (assignBody b) Q E v = Q () (v\<lparr>body := b\<rparr>)"
  by (simp add: postM_def assignBody_def)

lemma postM_assignQs [simp]: "postM (assignQs q) Q E v = Q () (v\<lparr>qs := q\<rparr>)"
  by (simp add: postM_def assignQs_def)

lemma postM_assignReturnAll [simp]:
  "postM (assignReturnAll r) Q E v = Q () (v\<lparr>returnAll := r\<rparr>)"
  by (simp add: postM_def assignReturnAll_def)

lemma postM_getBody [simp]:
  "postM (getBody k) Q E v = (case getProp (body v) k of Inl e \<Rightarrow> E e v | Inr x \<Rightarrow> Q x v)"
  by (simp add: postM_def getBody_def split: sum.splits)

lemma postM_setBody [simp]:
  "postM (setBody k x) Q E v =
     (case setProp (body v) k x of Inl e \<Rightarrow> E e v | Inr b \<Rightarrow> Q () (v\<lparr>body := b\<rparr>))"
  by (simp add: postM_def setBody_def split: sum.splits)

lemma postM_setQs [simp]:
  "postM (setQs k x) Q E v =
     (case setProp (qs v) k x of Inl e \<Rightarrow> E e v | Inr q \<Rightarrow> Q () (v\<lparr>qs := q\<rparr>))"
  by (simp add: postM_def setQs_def split: sum.splits)

lemma postM_githubApiRequest [simp]:
  "postM (githubApiRequest h m e b q) Q E v =
     (case apiResponse h (calls v) (ApiRequest m e b q) of
        Inl er \<Rightarrow> E er (v\<lparr>calls := calls v @ [ApiRequest m e b q]\<rparr>)
      | Inr x \<Rightarrow> Q x (v\<lparr>calls := calls v @ [ApiRequest m e b q]\<rparr>))"
  by (simp add: postM_def githubApiRequest_def split: sum.splits)

lemma postM_githubApiRequestAllItems [simp]:
  "postM (githubApiRequestAllItems h m e b q) Q E v =
     (case apiResponse h (calls v) (ApiRequestAllItems m e b q) of
        Inl er \<Rightarrow> E er (v\<lparr>calls := calls v @ [ApiRequestAllItems m e b q]\<rparr>)
      | Inr x \<Rightarrow> Q x (v\<lparr>calls := calls v @ [ApiRequestAllItems m e b q]\<rparr>))"
  by (simp add: postM_def githubApiRequestAllItems_def split: sum.splits)

lemma postM_resetValues [simp]:
  "postM resetValues Q E v =
     Q () (v\<lparr>requestMethod := ''GET'', endpoint := [], body := JObj [], qs := JObj []\<rparr>)"
  by (simp add: postM_def resetValues_def)

lemma postM_completes:
  "postM m Q (\<lambda>e v'. False) v \<Longrightarrow> \<exists>x v'. m v = (Inr x, v') \<and> Q x v'"
  by (auto simp: postM_def split: prod.splits sum.splits)

lemma postM_completed:
  "postM m Q (\<lambda>e v'. True) v \<Longrightarrow> m v = (Inr x, v') \<Longrightarrow> Q x v'"
  by (simp add: postM_def)

lemma postM_outcome:
  "postM m Q E v \<Longrightarrow> m v = (r, v') \<Longrightarrow> (case r of Inl e \<Rightarrow> E e v' | Inr x \<Rightarrow> Q x v')"
  by (simp add: postM_def)

lemma map_of_objectAssign:
  "map_of (objectAssign tgt src) k = (case map_of src k of None \<Rightarrow> map_of tgt k | Some x \<Rightarrow> Some x)"
proof (induction tgt src rule: objectAssign.induct)
  case (1 tgt)
  show ?case by simp
next
  case (2 tgt k' x src)
  then show ?case
    by (auto simp: update_conv' delete_conv' split: option.splits)
qed

lemma fullOperation_JStr [simp]:
  "fullOperation (JStr resource) (JStr operation) = resource @ '':'' @ operation"
  by (simp add: fullOperation_def)

section \<open>The response shapes\<close>



section \<open>Review events\<close>





section \<open>Labels and assignees of an issue\<close>

lemma mapProps_entries: "mapProps k (map (\<lambda>s. JObj [(k, s)]) xs) = Inr xs"
  by (induction xs) (simp_all add: bindS_def)

lemma issueCreate_post:
  assumes "getNodeParameter h ''owner'' i None = Inr owner"
    and "getNodeParameter h ''repository'' i None = Inr repository"
    and "getNodeParameter h ''title'' i None = Inr title"
    and "getNodeParameter h ''body'' i None = Inr issueBody"
    and "getNodeParameter h ''labels'' i None = Inr (JArr (map (\<lambda>s. JObj [(''label'', s)]) labelList))"
    and "getNodeParameter h ''assignees'' i None
           = Inr (JArr (map (\<lambda>s. JObj [(''assignee'', s)]) assigneeList))"
  shows "postM (route h (JStr ''issue'') (JStr ''create'') i it sto)
     (\<lambda>_ v'. requestMethod v' = ''POST''
        \<and> endpoint v' = repoEndpoint owner repository ''/issues''
        \<and> body v' = JObj [(''title'', title), (''body'', issueBody),
                           (''labels'', JArr labelList), (''assignees'', JArr assigneeList)])
     (\<lambda>e v'. False) v"
  using assms
  by (simp add: route_def issueRoute_def issueCreate_def mapProps_entries bindS_def)

lemma issueEdit_post:
  assumes "getNodeParameter h ''owner'' i None = Inr owner"
    and "getNodeParameter h ''repository'' i None = Inr repository"
    and "getNodeParameter h ''issueNumber'' i None = Inr issueNumber"
    and "getNodeParameter h ''editFields'' i (Some (JObj [])) = Inr (JObj editFields)"
    and "map_of editFields ''labels''
           = map_option (\<lambda>labelList. JArr (map (\<lambda>s. JObj [(''label'', s)]) labelList)) labels"
    and "map_of editFields ''assignees''
           = map_option (\<lambda>assigneeList. JArr (map (\<lambda>s. JObj [(''assignee'', s)]) assigneeList)) assignees"
  shows "postM (route h (JStr ''issue'') (JStr ''edit'') i it sto)
     (\<lambda>_ v'. requestMethod v' = ''PATCH''
        \<and> endpoint v' = repoEndpoint owner repository (''/issues/'' @ js_toString issueNumber)
        \<and> (\<exists>kvs. body v' = JObj kvs
             \<and> (\<forall>k. map_of kvs k =
                   (if k = ''labels'' then map_option JArr labels
                    else if k = ''assignees'' then map_option JArr assignees
                    else map_of editFields k))))
     (\<lambda>e v'. False) v"
  using assms
  by (cases labels; cases assignees)
     (simp_all add: route_def issueRoute_def issueEdit_def mapProps_entries bindS_def update_conv')

text \<open>
  C7. For \<^verbatim>\<open>issue:create\<close>, when the parameters can be read and \<^verbatim>\<open>labels\<close> is a
  list of \<^verbatim>\<open>{label: s}\<close> objects and \<^verbatim>\<open>assignees\<close> a list of \<^verbatim>\<open>{assignee: s}\<close>
  objects, the request is a \<^verbatim>\<open>POST\<close> to the issues of the repository whose body is
  the title, the body text, the list of the label values and the list of the assignee
  values. For \<^verbatim>\<open>issue:edit\<close>, the body of the \<^verbatim>\<open>PATCH\<close> has exactly the fields of
  \<^verbatim>\<open>editFields\<close>: \<^verbatim>\<open>labels\<close> and \<^verbatim>\<open>assignees\<close> are flattened in the same way when
  they were supplied (\<open>Some\<close>) and are absent when they were not (\<open>None\<close>), and every other
  field is assigneeList supplied.
\<close>

theorem issue_labels_assignees_flattened:
  assumes "getNodeParameter h ''owner'' i None = Inr owner"
    and "getNodeParameter h ''repository'' i None = Inr repository"
  shows "(getNodeParameter h ''title'' i None = Inr title
          \<and> getNodeParameter h ''body'' i None = Inr issueBody
          \<and> getNodeParameter h ''labels'' i None
               = Inr (JArr (map (\<lambda>s. JObj [(''label'', s)]) labelList))
          \<and> getNodeParameter h ''assignees'' i None
               = Inr (JArr (map (\<lambda>s. JObj [(''assignee'', s)]) assigneeList))
          \<longrightarrow> (\<exists>v'. route h (JStr ''issue'') (JStr ''create'') i it sto v = (Inr (), v')
                 \<and> requestMethod v' = ''POST''
                 \<and> endpoint v' = repoEndpoint owner repository ''/issues''
                 \<and> body v' = JObj [(''title'', title), (''body'', issueBody),
                                    (''labels'', JArr labelList), (''assignees'', JArr assigneeList)]))
       \<and> (getNodeParameter h ''issueNumber'' i None = Inr issueNumber
          \<and> getNodeParameter h ''editFields'' i (Some (JObj [])) = Inr (JObj editFields)
          \<and> map_of editFields ''labels''
               = map_option (\<lambda>labelList. JArr (map (\<lambda>s. JObj [(''label'', s)]) labelList)) labels
          \<and> map_of editFields ''assignees''
               = map_option (\<lambda>assigneeList. JArr (map (\<lambda>s. JObj [(''assignee'', s)]) assigneeList)) assignees
          \<longrightarrow> (\<exists>v' kvs. route h (JStr ''issue'') (JStr ''edit'') i it sto v = (Inr (), v')
                 \<and> requestMethod v' = ''PATCH''
                 \<and> endpoint v'
                     = repoEndpoint owner repository (''/issues/'' @ js_toString issueNumber)
                 \<and> body v' = JObj kvs
                 \<and> (\<forall>k. map_of kvs k =
                       (if k = ''labels'' then map_option JArr labels
                        else if k = ''assignees'' then map_option JArr assignees
                        else map_of editFields k))))"
proof (intro conjI impI)
  assume "getNodeParameter h ''title'' i None = Inr title
          \<and> getNodeParameter h ''body'' i None = Inr issueBody
          \<and> getNodeParameter h ''labels'' i None
               = Inr (JArr (map (\<lambda>s. JObj [(''label'', s)]) labelList))
          \<and> getNodeParameter h ''assignees'' i None
               = Inr (JArr (map (\<lambda>s. JObj [(''assignee'', s)]) assigneeList))"
  then have "postM (route h (JStr ''issue'') (JStr ''create'') i it sto)
     (\<lambda>_ v'. requestMethod v' = ''POST''
        \<and> endpoint v' = repoEndpoint owner repository ''/issues''
        \<and> body v' = JObj [(''title'', title), (''body'', issueBody),
                           (''labels'', JArr labelList), (''assignees'', JArr assigneeList)])
     (\<lambda>e v'. False) v"
    using assms by (intro issueCreate_post) simp_all
  from postM_completes [OF this]
  show "\<exists>v'. route h (JStr ''issue'') (JStr ''create'') i it sto v = (Inr (), v')
          \<and> requestMethod v' = ''POST''
          \<and> endpoint v' = repoEndpoint owner repository ''/issues''
          \<and> body v' = JObj [(''title'', title), (''body'', issueBody),
                             (''labels'', JArr labelList), (''assignees'', JArr assigneeList)]"
    by auto
next
  assume "getNodeParameter h ''issueNumber'' i None = Inr issueNumber
          \<and> getNodeParameter h ''editFields'' i (Some (JObj [])) = Inr (JObj editFields)
          \<and> map_of editFields ''labels''
               = map_option (\<lambda>labelList. JArr (map (\<lambda>s. JObj [(''label'', s)]) labelList)) labels
          \<and> map_of editFields ''assignees''
               = map_option (\<lambda>assigneeList. JArr (map (\<lambda>s. JObj [(''assignee'', s)]) assigneeList)) assignees"
  then have "postM (route h (JStr ''issue'') (JStr ''edit'') i it sto)
     (\<lambda>_ v'. requestMethod v' = ''PATCH''
        \<and> endpoint v' = repoEndpoint owner repository (''/issues/'' @ js_toString issueNumber)
        \<and> (\<exists>kvs. body v' = JObj kvs
             \<and> (\<forall>k. map_of kvs k =
                   (if k = ''labels'' then map_option JArr labels
                    else if k = ''assignees'' then map_option JArr assignees
                    else map_of editFields k))))
     (\<lambda>e v'. False) v"
    using assms by (intro issueEdit_post) simp_all
  from postM_completes [OF this]
  show "\<exists>v' kvs. route h (JStr ''issue'') (JStr ''edit'') i it sto v = (Inr (), v')
          \<and> requestMethod v' = ''PATCH''
          \<and> endpoint v' = repoEndpoint owner repository (''/issues/'' @ js_toString issueNumber)
          \<and> body v' = JObj kvs
          \<and> (\<forall>k. map_of kvs k =
                (if k = ''labels'' then map_option JArr labels
                 else if k = ''assignees'' then map_option JArr assignees
                 else map_of editFields k))"
    by auto
qed

theorem issue_labels_assignees_flattened_witness:
  "(\<exists>v'. route (demoHost False issueDemoParams (\<lambda>cs c. Inr JNull))
            (JStr ''issue'') (JStr ''create'') 0 \<lparr>json = JNull, binary = None\<rparr> [] startVars
            = (Inr (), v')
        \<and> body v' = JObj [(''title'', JStr ''Bug''), (''body'', JStr ''It fails''),
                           (''labels'', JArr [JStr ''a'', JStr ''b'']),
                           (''assignees'', JArr [JStr ''mona''])])
   \<and> (\<exists>v' kvs. route (demoHost False issueDemoParams (\<lambda>cs c. Inr JNull))
            (JStr ''issue'') (JStr ''edit'') 0 \<lparr>json = JNull, binary = None\<rparr> [] startVars
            = (Inr (), v')
        \<and> endpoint v' = ''/repos/octocat/hello/issues/7''
        \<and> body v' = JObj kvs
        \<and> map_of kvs ''title'' = Some (JStr ''New'')
        \<and> map_of kvs ''labels'' = Some (JArr [JStr ''a'', JStr ''b''])
        \<and> map_of kvs ''assignees'' = None)"
proof -
  let ?h = "demoHost False issueDemoParams (\<lambda>cs c. Inr JNull)"
  let ?it = "\<lparr>json = JNull, binary = None\<rparr>"
  let ?editFields = "[(''title'', JStr ''New''),
    (''labels'', JArr [JObj [(''label'', JStr ''a'')], JObj [(''label'', JStr ''b'')]])]"
  have seven: "string_of_int 7 = ''7''"
    by code_simp
  have p1: "getNodeParameter ?h ''owner'' 0 None = Inr (JStr ''octocat'')"
    and p2: "getNodeParameter ?h ''repository'' 0 None = Inr (JStr ''hello'')"
    by (simp_all add: demoHost_def issueDemoParams_def)
  note both = issue_labels_assignees_flattened [OF p1 p2,
      where title = "JStr ''Bug''" and issueBody = "JStr ''It fails''"
        and labelList = "[JStr ''a'', JStr ''b'']" and assigneeList = "[JStr ''mona'']"
        and issueNumber = "JNum 7" and editFields = ?editFields
        and labels = "Some [JStr ''a'', JStr ''b'']" and assignees = None
        and it = ?it and sto = "[]" and v = startVars]
  have "getNodeParameter ?h ''title'' 0 None = Inr (JStr ''Bug'')
      \<and> getNodeParameter ?h ''body'' 0 None = Inr (JStr ''It fails'')
      \<and> getNodeParameter ?h ''labels'' 0 None
          = Inr (JArr (map (\<lambda>s. JObj [(''label'', s)]) [JStr ''a'', JStr ''b'']))
      \<and> getNodeParameter ?h ''assignees'' 0 None
          = Inr (JArr (map (\<lambda>s. JObj [(''assignee'', s)]) [JStr ''mona'']))"
    by (simp add: demoHost_def issueDemoParams_def)
  with both [THEN conjunct1]
  have create: "\<exists>v'. route ?h (JStr ''issue'') (JStr ''create'') 0 ?it [] startVars = (Inr (), v')
        \<and> body v' = JObj [(''title'', JStr ''Bug''), (''body'', JStr ''It fails''),
                           (''labels'', JArr [JStr ''a'', JStr ''b'']),
                           (''assignees'', JArr [JStr ''mona''])]"
    by blast
  have "getNodeParameter ?h ''issueNumber'' 0 None = Inr (JNum 7)
      \<and> getNodeParameter ?h ''editFields'' 0 (Some (JObj [])) = Inr (JObj ?editFields)
      \<and> map_of ?editFields ''labels''
          = map_option (\<lambda>ls. JArr (map (\<lambda>s. JObj [(''label'', s)]) ls)) (Some [JStr ''a'', JStr ''b''])
      \<and> map_of ?editFields ''assignees''
          = map_option (\<lambda>as. JArr (map (\<lambda>s. JObj [(''assignee'', s)]) as)) None"
    by (simp add: demoHost_def issueDemoParams_def)
  with both [THEN conjunct2] obtain v' kvs
    where r: "route ?h (JStr ''issue'') (JStr ''edit'') 0 ?it [] startVars = (Inr (), v')"
      and e: "endpoint v' = repoEndpoint (JStr ''octocat'') (JStr ''hello'') (''/issues/'' @ js_toString (JNum 7))"
      and b: "body v' = JObj kvs"
      and k: "\<And>k. map_of kvs k =
                (if k = ''labels'' then map_option JArr (Some [JStr ''a'', JStr ''b''])
                 else if k = ''assignees'' then map_option JArr None
                 else map_of ?editFields k)"
    by blast
  have "map_of kvs ''title'' = Some (JStr ''New'')"
    and "map_of kvs ''labels'' = Some (JArr [JStr ''a'', JStr ''b''])"
    and "map_of kvs ''assignees'' = None"
    by (simp_all add: k)
  with r e b have "\<exists>v' kvs. route ?h (JStr ''issue'') (JStr ''edit'') 0 ?it [] startVars = (Inr (), v')
        \<and> endpoint v' = ''/repos/octocat/hello/issues/7''
        \<and> body v' = JObj kvs
        \<and> map_of kvs ''title'' = Some (JStr ''New'')
        \<and> map_of kvs ''labels'' = Some (JArr [JStr ''a'', JStr ''b''])
        \<and> map_of kvs ''assignees'' = None"
    by (simp add: repoEndpoint_def seven)
  with create show ?thesis
    by (rule conjI)
qed

section \<open>Methods and endpoints\<close>

lemma sum_case_True:
  "(case r of Inl e \<Rightarrow> True | Inr x \<Rightarrow> P x) = (\<forall>x. r = Inr x \<longrightarrow> P x)"
  by (cases r) auto

lemma keepsRoute_bindM:
  "keepsRoute m \<Longrightarrow> (\<And>x. keepsRoute (f x)) \<Longrightarrow> keepsRoute (bindM m f)"
  unfolding keepsRoute_def bindM_def
  by (auto split: prod.splits sum.splits)

lemma keepsRoute_prims:
  "keepsRoute (returnM x)" "keepsRoute (throwM e)" "keepsRoute (liftM r)"
  "keepsRoute (param h name idx fb)" "keepsRoute (readVar g)" "keepsRoute (getBody k)"
  "keepsRoute (setBody k y)" "keepsRoute (setQs k y)" "keepsRoute (assignBody b)"
  "keepsRoute (assignQs q)" "keepsRoute (assignReturnAll ra)"
  "keepsRoute (githubApiRequest h m' e' b q)" "keepsRoute (githubApiRequestAllItems h m' e' b q)"
  by (auto simp: keepsRoute_def returnM_def throwM_def liftM_def param_def readVar_def getBody_def
      setBody_def setQs_def assignBody_def assignQs_def assignReturnAll_def githubApiRequest_def
      githubApiRequestAllItems_def split: sum.splits)

lemma keepsRoute_whenM: "keepsRoute m \<Longrightarrow> keepsRoute (whenM c m)"
  by (simp add: whenM_def keepsRoute_prims)

lemma keepsRoute_seqM_Nil: "keepsRoute (seqM [])"
  by (simp add: keepsRoute_prims)

lemma keepsRoute_seqM_Cons: "keepsRoute m \<Longrightarrow> keepsRoute (seqM ms) \<Longrightarrow> keepsRoute (seqM (m # ms))"
  by (simp add: keepsRoute_bindM)

lemmas keepsRoute_intros =
  keepsRoute_bindM keepsRoute_prims keepsRoute_whenM keepsRoute_seqM_Nil keepsRoute_seqM_Cons

lemma keepsRoute_commitFields: "keepsRoute (commitFields ap)"
  unfolding commitFields_def by (intro keepsRoute_intros)

lemma keepsRoute_getFileSha: "keepsRoute (getFileSha h owner repository filePath branch)"
  unfolding getFileSha_def
  by (intro keepsRoute_intros) (simp add: keepsRoute_prims split: jsval.split option.split)

lemma keepsRoute_fileContent: "keepsRoute (fileContent h i it sto)"
  unfolding fileContent_def
  by (intro keepsRoute_intros) (auto simp: keepsRoute_prims intro!: keepsRoute_intros split: option.split)

lemma postM_keeps:
  assumes "keepsRoute m"
    and "\<And>x v'. requestMethod v' = requestMethod v \<Longrightarrow> endpoint v' = endpoint v \<Longrightarrow> Q x v'"
  shows "postM m Q (\<lambda>e v'. True) v"
  using assms by (auto simp: keepsRoute_def postM_def split: prod.splits sum.splits)


lemma postM_seq_keep:
  assumes "keepsRoute m"
    and "\<And>v'. requestMethod v' = requestMethod v \<Longrightarrow> endpoint v' = endpoint v
            \<Longrightarrow> postM (seqM ms) Q (\<lambda>e v'. True) v'"
  shows "postM (seqM (m # ms)) Q (\<lambda>e v'. True) v"
  using assms by (auto intro: postM_keeps)

lemma postM_seq_end: "Q () (v\<lparr>endpoint := e\<rparr>) \<Longrightarrow> postM (seqM [setEndpoint e]) Q E v"
  by simp

lemmas route_seq_intros =
  allI impI postM_seq_end postM_seq_keep keepsRoute_intros keepsRoute_commitFields
  keepsRoute_getFileSha keepsRoute_fileContent

lemmas path_defs =
  paramText_def repoPath_def contentsPath_def issuePath_def releasePath_def reviewsPath_def
  reviewPath_def contentsEndpoint_def repoEndpoint_def reviewsEndpoint_def

lemma route_file_create:
  "postM (route h (JStr ''file'') (JStr ''create'') i it sto)
     (\<lambda>_ v'. requestMethod v' = ''PUT'' \<and> endpoint v' = contentsPath h i) (\<lambda>e v'. True) v"
  apply (simp add: route_def fileRoute_def fileCreateEdit_def sum_case_True del: seqM.simps)
  apply (intro route_seq_intros)
  apply (simp add: path_defs)
  done

lemma route_file_edit:
  "postM (route h (JStr ''file'') (JStr ''edit'') i it sto)
     (\<lambda>_ v'. requestMethod v' = ''PUT'' \<and> endpoint v' = contentsPath h i) (\<lambda>e v'. True) v"
  apply (simp add: route_def fileRoute_def fileCreateEdit_def sum_case_True del: seqM.simps)
  apply (intro route_seq_intros)
  apply (simp add: path_defs)
  done

lemma route_file_delete:
  "postM (route h (JStr ''file'') (JStr ''delete'') i it sto)
     (\<lambda>_ v'. requestMethod v' = ''DELETE'' \<and> endpoint v' = contentsPath h i) (\<lambda>e v'. True) v"
  apply (simp add: route_def fileRoute_def fileDelete_def sum_case_True del: seqM.simps)
  apply (intro allI impI)
  apply (rule postM_keeps [OF keepsRoute_commitFields])
  apply (simp add: sum_case_True del: seqM.simps)
  apply (intro route_seq_intros)
  apply (simp add: path_defs)
  done

lemma route_file_get:
  "postM (route h (JStr ''file'') (JStr ''get'') i it sto)
     (\<lambda>_ v'. requestMethod v' = ''GET'' \<and> endpoint v' = contentsPath h i) (\<lambda>e v'. True) v"
  by (simp add: route_def fileRoute_def fileGetList_def sum_case_True path_defs)

lemma route_file_list:
  "postM (route h (JStr ''file'') (JStr ''list'') i it sto)
     (\<lambda>_ v'. requestMethod v' = ''GET'' \<and> endpoint v' = contentsPath h i) (\<lambda>e v'. True) v"
  by (simp add: route_def fileRoute_def fileGetList_def sum_case_True path_defs)


lemma route_issue:
  "postM (route h (JStr ''issue'') (JStr ''create'') i it sto)
     (\<lambda>_ v'. requestMethod v' = ''POST'' \<and> endpoint v' = repoPath h i @ ''/issues'') (\<lambda>e v'. True) v"
  "postM (route h (JStr ''issue'') (JStr ''createComment'') i it sto)
     (\<lambda>_ v'. requestMethod v' = ''POST'' \<and> endpoint v' = issuePath h i @ ''/comments'') (\<lambda>e v'. True) v"
  "postM (route h (JStr ''issue'') (JStr ''edit'') i it sto)
     (\<lambda>_ v'. requestMethod v' = ''PATCH'' \<and> endpoint v' = issuePath h i) (\<lambda>e v'. True) v"
  "postM (route h (JStr ''issue'') (JStr ''get'') i it sto)
     (\<lambda>_ v'. requestMethod v' = ''GET'' \<and> endpoint v' = issuePath h i) (\<lambda>e v'. True) v"
  "postM (route h (JStr ''issue'') (JStr ''lock'') i it sto)
     (\<lambda>_ v'. requestMethod v' = ''PUT'' \<and> endpoint v' = issuePath h i @ ''/lock'') (\<lambda>e v'. True) v"
  by (simp_all add: route_def issueRoute_def issueCreate_def issueCreateComment_def issueEdit_def
      issueGet_def issueLock_def sum_case_True path_defs)

lemma route_release:
  "postM (route h (JStr ''release'') (JStr ''create'') i it sto)
     (\<lambda>_ v'. requestMethod v' = ''POST'' \<and> endpoint v' = repoPath h i @ ''/releases'') (\<lambda>e v'. True) v"
  "postM (route h (JStr ''release'') (JStr ''delete'') i it sto)
     (\<lambda>_ v'. requestMethod v' = ''DELETE'' \<and> endpoint v' = releasePath h i) (\<lambda>e v'. True) v"
  "postM (route h (JStr ''release'') (JStr ''get'') i it sto)
     (\<lambda>_ v'. requestMethod v' = ''GET'' \<and> endpoint v' = releasePath h i) (\<lambda>e v'. True) v"
  "postM (route h (JStr ''release'') (JStr ''getAll'') i it sto)
     (\<lambda>_ v'. requestMethod v' = ''GET'' \<and> endpoint v' = repoPath h i @ ''/releases'') (\<lambda>e v'. True) v"
  "postM (route h (JStr ''release'') (JStr ''update'') i it sto)
     (\<lambda>_ v'. requestMethod v' = ''PATCH'' \<and> endpoint v' = releasePath h i) (\<lambda>e v'. True) v"
  by (simp_all add: route_def releaseRoute_def releaseCreate_def releaseDelete_def releaseGet_def
      releaseGetAll_def releaseUpdate_def readReturnAll_def limitPerPage_def sum_case_True path_defs)

lemma route_repository:
  "postM (route h (JStr ''repository'') (JStr ''get'') i it sto)
     (\<lambda>_ v'. requestMethod v' = ''GET'' \<and> endpoint v' = repoPath h i) (\<lambda>e v'. True) v"
  "postM (route h (JStr ''repository'') (JStr ''getLicense'') i it sto)
     (\<lambda>_ v'. requestMethod v' = ''GET'' \<and> endpoint v' = repoPath h i @ ''/license'') (\<lambda>e v'. True) v"
  "postM (route h (JStr ''repository'') (JStr ''getIssues'') i it sto)
     (\<lambda>_ v'. requestMethod v' = ''GET'' \<and> endpoint v' = repoPath h i @ ''/issues'') (\<lambda>e v'. True) v"
  "postM (route h (JStr ''repository'') (JStr ''listPopularPaths'') i it sto)
     (\<lambda>_ v'. requestMethod v' = ''GET'' \<and> endpoint v' = repoPath h i @ ''/traffic/popular/paths'')
     (\<lambda>e v'. True) v"
  "postM (route h (JStr ''repository'') (JStr ''listReferrers'') i it sto)
     (\<lambda>_ v'. requestMethod v' = ''GET''
        \<and> endpoint v' = repoPath h i @ ''/traffic/popular/referrers'') (\<lambda>e v'. True) v"
  by (simp_all add: route_def repositoryRoute_def repositoryGetIssues_def readReturnAll_def
      limitPerPage_def sum_case_True path_defs)

lemma route_review:
  "postM (route h (JStr ''review'') (JStr ''get'') i it sto)
     (\<lambda>_ v'. requestMethod v' = ''GET'' \<and> endpoint v' = reviewPath h i) (\<lambda>e v'. True) v"
  "postM (route h (JStr ''review'') (JStr ''getAll'') i it sto)
     (\<lambda>_ v'. requestMethod v' = ''GET'' \<and> endpoint v' = reviewsPath h i) (\<lambda>e v'. True) v"
  "postM (route h (JStr ''review'') (JStr ''create'') i it sto)
     (\<lambda>_ v'. requestMethod v' = ''POST'' \<and> endpoint v' = reviewsPath h i) (\<lambda>e v'. True) v"
  "postM (route h (JStr ''review'') (JStr ''update'') i it sto)
     (\<lambda>_ v'. requestMethod v' = ''PUT'' \<and> endpoint v' = reviewPath h i) (\<lambda>e v'. True) v"
  by (simp_all add: route_def reviewRoute_def reviewGet_def reviewGetAll_def reviewCreate_def
      reviewUpdate_def readReturnAll_def limitPerPage_def sum_case_True path_defs)

lemma route_user:
  "postM (route h (JStr ''user'') (JStr ''getRepositories'') i it sto)
     (\<lambda>_ v'. requestMethod v' = ''GET''
        \<and> endpoint v' = ''/users/'' @ paramText h ''owner'' i @ ''/repos'') (\<lambda>e v'. True) v"
  "postM (route h (JStr ''user'') (JStr ''invite'') i it sto)
     (\<lambda>_ v'. requestMethod v' = ''POST''
        \<and> endpoint v' = ''/orgs/'' @ paramText h ''organization'' i @ ''/invitations'')
     (\<lambda>e v'. True) v"
  by (simp_all add: route_def userRoute_def userGetRepositories_def userInvite_def
      readReturnAll_def limitPerPage_def sum_case_True path_defs)

lemma route_table_all:
  "list_all (\<lambda>((resource, operation), method, ep).
       postM (route h (JStr resource) (JStr operation) i it sto)
         (\<lambda>_ v'. requestMethod v' = method \<and> endpoint v' = ep) (\<lambda>e v'. True) v)
     (routeTable h i)"
  unfolding routeTable_def list.pred_inject prod.case
  by (intro conjI route_file_create route_file_edit route_file_delete route_file_get
      route_file_list route_issue route_release route_repository route_review route_user)
     simp

text \<open>
  C8 (as amended). For every resource and operation of the table of section 4.1, when the
  router builds the request without an error, the method and the endpoint are those of
  the table: the owner, the repository and the identifiers of item \<open>i\<close> are put into the
  path as their text, unchanged, and only the file path is passed through
  \<^verbatim>\<open>encodeURI\<close>.
\<close>

theorem route_method_endpoint:
  assumes "((resource, operation), method, ep) \<in> set (routeTable h i)"
    and "route h (JStr resource) (JStr operation) i it sto v = (Inr (), v')"
  shows "requestMethod v' = method \<and> endpoint v' = ep"
proof -
  from route_table_all [of h i it sto v] assms(1)
  have "postM (route h (JStr resource) (JStr operation) i it sto)
         (\<lambda>_ v'. requestMethod v' = method \<and> endpoint v' = ep) (\<lambda>e v'. True) v"
    by (auto simp: list_all_iff)
  from postM_completed [OF this assms(2)] show ?thesis .
qed

text \<open>
  The witness: on a concrete host every operation of the table completes with the method
  and the endpoint of its row; for \<^verbatim>\<open>file:get\<close> the space of the file path is escaped.
\<close>

theorem route_method_endpoint_witness:
  "requestMethod (snd (route (demoHost False nodeDemoParams demoApi)
       (JStr ''file'') (JStr ''get'') 1 demoItem [] startVars)) = ''GET''
   \<and> endpoint (snd (route (demoHost False nodeDemoParams demoApi)
       (JStr ''file'') (JStr ''get'') 1 demoItem [] startVars))
       = ''/repos/hubot/hello/contents/docs/read%20me.md''
   \<and> list_all (\<lambda>((resource, operation), method, ep).
         case route (demoHost False nodeDemoParams demoApi) (JStr resource) (JStr operation) 1
                demoItem [] startVars of
           (Inr u, v') \<Rightarrow> requestMethod v' = method \<and> endpoint v' = ep
         | (Inl e, v') \<Rightarrow> False)
       (routeTable (demoHost False nodeDemoParams demoApi) 1)"
proof -
  let ?h = "demoHost False nodeDemoParams demoApi"
  let ?r = "route ?h (JStr ''file'') (JStr ''get'') 1 demoItem [] startVars"
  have r: "?r = (Inr (), snd ?r)"
    by code_simp
  have m: "((''file'', ''get''), ''GET'', contentsPath ?h 1) \<in> set (routeTable ?h 1)"
    by (simp add: routeTable_def)
  have p: "contentsPath ?h 1 = ''/repos/hubot/hello/contents/docs/read%20me.md''"
    by code_simp
  have every: "list_all (\<lambda>((resource, operation), method, ep).
         case route ?h (JStr resource) (JStr operation) 1 demoItem [] startVars of
           (Inr u, v') \<Rightarrow> requestMethod v' = method \<and> endpoint v' = ep
         | (Inl e, v') \<Rightarrow> False)
       (routeTable ?h 1)"
    by code_simp
  from route_method_endpoint [OF m r] p every show ?thesis
    by simp
qed

text \<open>
  The counterexample to C8 as stated: an owner, a repository and a file path that contain
  the reserved characters \<^verbatim>\<open>/\<close>, \<^verbatim>\<open>?\<close> and \<^verbatim>\<open>#\<close> reach the endpoint with these
  characters as they are, where an escaped path segment has \<^verbatim>\<open>%2F\<close>, \<^verbatim>\<open>%3F\<close> and
  \<^verbatim>\<open>%23\<close>.
\<close>

theorem endpoint_escaping_counterexample:
  "endpoint (snd (route
       (demoHost False (\<lambda>idx. [(''owner'', JStr ''octo/cat?''), (''repository'', JStr ''hello#1'')])
          demoApi)
       (JStr ''repository'') (JStr ''get'') 0 demoItem [] startVars))
     = ''/repos/octo/cat?/hello#1''
   \<and> ''/repos/'' @ escapeSegment ''octo/cat?'' @ ''/'' @ escapeSegment ''hello#1''
     = ''/repos/octo%2Fcat%3F/hello%231''
   \<and> endpoint (snd (route
       (demoHost False (\<lambda>idx. [(''owner'', JStr ''octocat''), (''repository'', JStr ''hello''),
                                (''filePath'', JStr ''a?b#c d'')]) demoApi)
       (JStr ''file'') (JStr ''get'') 0 demoItem [] startVars))
     = ''/repos/octocat/hello/contents/a?b#c%20d''"
  by code_simp

section \<open>Pagination\<close>

lemma getProp_setProp: "setProp q k x = Inr q' \<Longrightarrow> getProp q' k = Inr x"
  by (cases q) (auto simp: update_conv')

lemma request_outcome:
  "request h v = (apiResponse h (calls v) (callOf v), v\<lparr>calls := calls v @ [callOf v]\<rparr>)"
  by (simp add: request_def callOf_def bindM_def readVar_def githubApiRequest_def
      githubApiRequestAllItems_def)

lemma callOf_calls [simp]: "callOf (v\<lparr>calls := cs\<rparr>) = callOf v"
  by (simp add: callOf_def)

lemma routeAndRequest_outcome:
  assumes "routeAndRequest h resource operation i it sto v = (r, v')"
  shows "(\<exists>e. route h resource operation i it sto v = (Inl e, v') \<and> r = Inl e)
       \<or> (\<exists>v1. route h resource operation i it sto v = (Inr (), v1)
              \<and> v' = v1\<lparr>calls := calls v1 @ [callOf v1]\<rparr>
              \<and> r = apiResponse h (calls v1) (callOf v1))"
  using assms
  by (auto simp: routeAndRequest_def bindM_def request_outcome split: prod.splits sum.splits)

lemma paginated_route_post:
  assumes "(resource, operation) \<in> set paginatedOperations"
  shows "postM (route h (JStr resource) (JStr operation) i it sto)
    (\<lambda>_ v'. requestMethod v' = ''GET'' \<and> body v' = JObj [] \<and> calls v' = calls v
       \<and> getNodeParameter h ''returnAll'' 0 None = Inr (returnAll v')
       \<and> (returnAll v' = JBool False \<longrightarrow>
            (\<exists>lim. getNodeParameter h ''limit'' 0 None = Inr lim
                  \<and> getProp (qs v') ''per_page'' = Inr lim)))
    (\<lambda>e v'. calls v' = calls v)
    v"
  using assms
  apply (simp add: paginatedOperations_def)
  apply (elim disjE conjE)
     apply (simp_all add: route_def releaseRoute_def releaseGetAll_def
      repositoryRoute_def repositoryGetIssues_def reviewRoute_def reviewGetAll_def
      userRoute_def userGetRepositories_def readReturnAll_def limitPerPage_def
      getProp_setProp
      split: sum.split)
  done

lemma overwrite_lists_disjoint:
  "fullOp \<in> set overwriteDataOperationsArray \<Longrightarrow> fullOp \<notin> set overwriteDataOperations"
  by (auto simp: overwriteDataOperations_def overwriteDataOperationsArray_def)

lemma reshape_flatten:
  "fullOp \<in> set overwriteDataOperationsArray
     \<Longrightarrow> reshape fullOp responseData rd = bindS (arrayLike responseData) (\<lambda>xs. Inr (rd @ xs))"
  by (simp add: reshape_def overwrite_lists_disjoint)

lemma binaryDelivery_other:
  "fullOp \<noteq> ''file:get'' \<Longrightarrow> binaryDelivery h fullOp i its sto responseData = Inr None"
  by (simp add: binaryDelivery_def)

lemma paginated_cases:
  assumes "(resource, operation) \<in> set paginatedOperations"
  obtains "resource = ''release''" "operation = ''getAll''"
    | "resource = ''repository''" "operation = ''getIssues''"
    | "resource = ''review''" "operation = ''getAll''"
    | "resource = ''user''" "operation = ''getRepositories''"
  using assms by (auto simp: paginatedOperations_def)

lemma paginated_route_endpoint:
  assumes "(resource, operation) \<in> set paginatedOperations"
    and r: "route h (JStr resource) (JStr operation) i it sto v = (Inr (), v')"
  shows "((resource, operation), ''GET'', endpoint v') \<in> set (routeTable h i)"
  using assms(1)
proof (cases rule: paginated_cases)
  case 1
  from postM_completed [OF route_release(4) r [unfolded 1]] show ?thesis
    by (simp add: 1 routeTable_def)
next
  case 2
  from postM_completed [OF route_repository(3) r [unfolded 2]] show ?thesis
    by (simp add: 2 routeTable_def)
next
  case 3
  from postM_completed [OF route_review(2) r [unfolded 3]] show ?thesis
    by (simp add: 3 routeTable_def)
next
  case 4
  from postM_completed [OF route_user(1) r [unfolded 4]] show ?thesis
    by (simp add: 4 routeTable_def)
qed

lemma paginated_fullOperation:
  assumes "(resource, operation) \<in> set paginatedOperations"
  shows "resource @ '':'' @ operation \<in> set overwriteDataOperationsArray"
    and "resource @ '':'' @ operation \<noteq> ''file:get''"
    and "resource @ '':'' @ operation \<noteq> ''release:delete''"
  using assms by (auto simp: paginatedOperations_def overwriteDataOperationsArray_def)

lemma tryBody_paginated:
  assumes "(resource, operation) \<in> set paginatedOperations"
    and "tryBody h (JStr resource) (JStr operation) i st = Completed rd v'"
  shows "\<exists>resp page.
           routeAndRequest h (JStr resource) (JStr operation) i (items st ! i) (store st)
             (variables st) = (Inr resp, v')
         \<and> arrayLike resp = Inr page \<and> rd = returnData st @ page"
  using assms(2) paginated_fullOperation [OF assms(1)]
  by (auto simp: tryBody_def binaryDelivery_other reshape_flatten bindS_def
      split: prod.splits sum.splits)

lemma route_overrideLater:
  assumes "(resource, operation) \<in> set paginatedOperations"
  shows "route (overrideLater h other) (JStr resource) (JStr operation) i it sto
           = route h (JStr resource) (JStr operation) i it sto"
  using assms
proof (cases rule: paginated_cases)
  case 1
  then show ?thesis
    by (simp add: route_def releaseRoute_def releaseGetAll_def readReturnAll_def whenM_def
        limitPerPage_def param_def overrideLater_def)
next
  case 2
  then show ?thesis
    by (simp add: route_def repositoryRoute_def repositoryGetIssues_def readReturnAll_def
        limitPerPage_def param_def overrideLater_def)
next
  case 3
  then show ?thesis
    by (simp add: route_def reviewRoute_def reviewGetAll_def readReturnAll_def
        limitPerPage_def param_def overrideLater_def)
next
  case 4
  then show ?thesis
    by (simp add: route_def userRoute_def userGetRepositories_def readReturnAll_def
        limitPerPage_def param_def overrideLater_def)
qed

text \<open>
  C3. For a paginated operation, when the processing of item \<open>i\<close> completes: the run made
  exactly one call for the item, a \<^verbatim>\<open>GET\<close> with an empty body to the endpoint of the
  table. With \<^verbatim>\<open>returnAll\<close> (read at index 0) \<^verbatim>\<open>false\<close>, the call is one request
  whose query has \<^verbatim>\<open>per_page\<close> equal to the limit; with \<^verbatim>\<open>returnAll\<close> \<^verbatim>\<open>true\<close>, it
  is the all-pages helper instead. The elements of the answer to that one call, and
  nothing else, are appended to the accumulated output.
\<close>

theorem paginated_request:
  assumes "(resource, operation) \<in> set paginatedOperations"
    and "tryBody h (JStr resource) (JStr operation) i st = Completed rd v'"
  shows "getNodeParameter h ''returnAll'' 0 None = Inr (returnAll v')
       \<and> requestMethod v' = ''GET'' \<and> body v' = JObj []
       \<and> ((resource, operation), ''GET'', endpoint v') \<in> set (routeTable h i)
       \<and> calls v' = calls (variables st) @ [callOf v']
       \<and> (returnAll v' = JBool False \<longrightarrow>
            callOf v' = ApiRequest ''GET'' (endpoint v') (JObj []) (qs v')
          \<and> (\<exists>lim. getNodeParameter h ''limit'' 0 None = Inr lim
                 \<and> getProp (qs v') ''per_page'' = Inr lim))
       \<and> (returnAll v' = JBool True \<longrightarrow>
            callOf v' = ApiRequestAllItems ''GET'' (endpoint v') (JObj []) (qs v'))
       \<and> (\<exists>resp page. apiResponse h (calls (variables st)) (callOf v') = Inr resp
                \<and> arrayLike resp = Inr page \<and> rd = returnData st @ page)"
proof -
  let ?it = "items st ! i" and ?sto = "store st" and ?v = "variables st"
  from tryBody_paginated [OF assms] obtain resp page
    where rr: "routeAndRequest h (JStr resource) (JStr operation) i ?it ?sto ?v = (Inr resp, v')"
      and page: "arrayLike resp = Inr page" "rd = returnData st @ page"
    by blast
  from routeAndRequest_outcome [OF rr] obtain v1
    where r: "route h (JStr resource) (JStr operation) i ?it ?sto ?v = (Inr (), v1)"
      and v': "v' = v1\<lparr>calls := calls v1 @ [callOf v1]\<rparr>"
      and resp: "Inr resp = apiResponse h (calls v1) (callOf v1)"
    by auto
  from postM_outcome [OF paginated_route_post [OF assms(1)] r]
  have p: "requestMethod v1 = ''GET''" "body v1 = JObj []" "calls v1 = calls ?v"
    "getNodeParameter h ''returnAll'' 0 None = Inr (returnAll v1)"
    "returnAll v1 = JBool False \<longrightarrow>
       (\<exists>lim. getNodeParameter h ''limit'' 0 None = Inr lim \<and> getProp (qs v1) ''per_page'' = Inr lim)"
    by simp_all
  have e: "((resource, operation), ''GET'', endpoint v1) \<in> set (routeTable h i)"
    by (rule paginated_route_endpoint [OF assms(1) r])
  have c: "callOf v' = callOf v1"
    by (simp add: v')
  have fields: "returnAll v' = returnAll v1" "requestMethod v' = requestMethod v1"
    "body v' = body v1" "endpoint v' = endpoint v1" "qs v' = qs v1"
    "calls v' = calls v1 @ [callOf v1]"
    by (simp_all add: v')
  have one: "returnAll v1 = JBool False
       \<longrightarrow> callOf v1 = ApiRequest ''GET'' (endpoint v1) (JObj []) (qs v1)"
    and all: "returnAll v1 = JBool True
       \<longrightarrow> callOf v1 = ApiRequestAllItems ''GET'' (endpoint v1) (JObj []) (qs v1)"
    by (simp_all add: callOf_def p)
  have answer: "\<exists>resp page. apiResponse h (calls ?v) (callOf v1) = Inr resp
                \<and> arrayLike resp = Inr page \<and> rd = returnData st @ page"
    using page resp [symmetric] p(3) by auto
  show ?thesis
    unfolding fields c
    using p e one all answer by simp
qed

theorem paginated_request_witness:
  "\<exists>v'. tryBody (demoHost False nodeDemoParams pageApi) (JStr ''release'') (JStr ''getAll'') 1
            (initialState [demoItem, demoItem] ([] :: nat store))
            = Completed [JStr ''r1'', JStr ''r2''] v'
       \<and> calls v' = [ApiRequest ''GET'' ''/repos/hubot/hello/releases'' (JObj [])
                       (JObj [(''per_page'', JNum 50)])]"
proof -
  let ?h = "demoHost False nodeDemoParams pageApi"
  let ?st = "initialState [demoItem, demoItem] ([] :: nat store)"
  let ?v = "\<lparr>requestMethod = ''GET'', endpoint = ''/repos/hubot/hello/releases'', body = JObj [],
             qs = JObj [(''per_page'', JNum 50)], returnAll = JBool False,
             calls = [ApiRequest ''GET'' ''/repos/hubot/hello/releases'' (JObj [])
                        (JObj [(''per_page'', JNum 50)])]\<rparr>"
  have t: "tryBody ?h (JStr ''release'') (JStr ''getAll'') 1 ?st
             = Completed [JStr ''r1'', JStr ''r2''] ?v"
    by code_simp
  have m: "(''release'', ''getAll'') \<in> set paginatedOperations"
    by (simp add: paginatedOperations_def)
  from paginated_request [OF m t]
  have "calls ?v = calls (variables ?st) @ [callOf ?v]"
    and "returnAll ?v = JBool False
           \<longrightarrow> callOf ?v = ApiRequest ''GET'' (endpoint ?v) (JObj []) (qs ?v)"
    by blast+
  then have "calls ?v = [ApiRequest ''GET'' ''/repos/hubot/hello/releases'' (JObj [])
                          (JObj [(''per_page'', JNum 50)])]"
    by (simp add: initialState_def)
  with t show ?thesis
    by blast
qed

text \<open>
  C10. For a paginated operation, the request built for item \<open>i\<close> does not depend on what
  \<^verbatim>\<open>returnAll\<close> and \<^verbatim>\<open>limit\<close> are at any index other than 0: with these changed to
  anything, the router gives the same result. When it completes, \<^verbatim>\<open>returnAll\<close> is the
  parameter at index 0, \<^verbatim>\<open>per_page\<close> (when \<^verbatim>\<open>returnAll\<close> is \<^verbatim>\<open>false\<close>) is the
  limit at index 0, and the endpoint is the one of the table at index \<open>i\<close>, built from the
  owner, the repository and the identifiers of item \<open>i\<close>.
\<close>

theorem pagination_mode_read_at_index_0:
  assumes "(resource, operation) \<in> set paginatedOperations"
  shows "route (overrideLater h other) (JStr resource) (JStr operation) i it sto v
           = route h (JStr resource) (JStr operation) i it sto v
       \<and> (\<forall>v'. route h (JStr resource) (JStr operation) i it sto v = (Inr (), v') \<longrightarrow>
             getNodeParameter h ''returnAll'' 0 None = Inr (returnAll v')
           \<and> (returnAll v' = JBool False \<longrightarrow>
                (\<exists>lim. getNodeParameter h ''limit'' 0 None = Inr lim
                      \<and> getProp (qs v') ''per_page'' = Inr lim))
           \<and> ((resource, operation), ''GET'', endpoint v') \<in> set (routeTable h i))"
proof (intro conjI allI impI)
  show "route (overrideLater h other) (JStr resource) (JStr operation) i it sto v
          = route h (JStr resource) (JStr operation) i it sto v"
    by (simp add: route_overrideLater [OF assms])
next
  fix v'
  assume r: "route h (JStr resource) (JStr operation) i it sto v = (Inr (), v')"
  from postM_outcome [OF paginated_route_post [OF assms] r]
  show "getNodeParameter h ''returnAll'' 0 None = Inr (returnAll v')"
    by simp
  from postM_outcome [OF paginated_route_post [OF assms] r]
  show "\<exists>lim. getNodeParameter h ''limit'' 0 None = Inr lim
              \<and> getProp (qs v') ''per_page'' = Inr lim"
    if "returnAll v' = JBool False"
    using that by simp
  show "((resource, operation), ''GET'', endpoint v') \<in> set (routeTable h i)"
    by (rule paginated_route_endpoint [OF assms r])
qed

theorem pagination_mode_read_at_index_0_witness:
  "getNodeParameter (demoHost False nodeDemoParams pageApi) ''returnAll'' 1 None = Inr (JBool True)
   \<and> getNodeParameter (demoHost False nodeDemoParams pageApi) ''limit'' 1 None = Inr (JNum 5)
   \<and> route (demoHost False nodeDemoParams pageApi) (JStr ''review'') (JStr ''getAll'') 1
        demoItem [] startVars
      = (Inr (), \<lparr>requestMethod = ''GET'', endpoint = ''/repos/hubot/hello/pulls/12/reviews'',
                   body = JObj [], qs = JObj [(''per_page'', JNum 50)], returnAll = JBool False,
                   calls = []\<rparr>)
   \<and> route (overrideLater (demoHost False nodeDemoParams pageApi)
               (\<lambda>name idx fallback. Inl (UpstreamError ''unset'')))
        (JStr ''review'') (JStr ''getAll'') 1 demoItem [] startVars
      = (Inr (), \<lparr>requestMethod = ''GET'', endpoint = ''/repos/hubot/hello/pulls/12/reviews'',
                   body = JObj [], qs = JObj [(''per_page'', JNum 50)], returnAll = JBool False,
                   calls = []\<rparr>)"
proof -
  let ?h = "demoHost False nodeDemoParams pageApi"
  have r: "route ?h (JStr ''review'') (JStr ''getAll'') 1 demoItem [] startVars
      = (Inr (), \<lparr>requestMethod = ''GET'', endpoint = ''/repos/hubot/hello/pulls/12/reviews'',
                   body = JObj [], qs = JObj [(''per_page'', JNum 50)], returnAll = JBool False,
                   calls = []\<rparr>)"
    by code_simp
  have p: "getNodeParameter ?h ''returnAll'' 1 None = Inr (JBool True)"
    "getNodeParameter ?h ''limit'' 1 None = Inr (JNum 5)"
    by (simp_all add: demoHost_def nodeDemoParams_def)
  have m: "(''review'', ''getAll'') \<in> set paginatedOperations"
    by (simp add: paginatedOperations_def)
  from pagination_mode_read_at_index_0 [OF m, of ?h "\<lambda>name idx fallback. Inl (UpstreamError ''unset'')"
      1 demoItem "[]" startVars]
  have "route (overrideLater ?h (\<lambda>name idx fallback. Inl (UpstreamError ''unset'')))
          (JStr ''review'') (JStr ''getAll'') 1 demoItem [] startVars
        = route ?h (JStr ''review'') (JStr ''getAll'') 1 demoItem [] startVars"
    by blast
  with r p show ?thesis
    by simp
qed

section \<open>The SHA lookup of file:edit and file:delete\<close>

lemma keepsKey_bindM:
  "keepsKey k m \<Longrightarrow> (\<And>x. keepsKey k (f x)) \<Longrightarrow> keepsKey k (bindM m f)"
  unfolding keepsKey_def bindM_def
  apply (intro allI impI)
  apply (auto split: prod.splits sum.splits)
  apply (metis)+
  done

lemma keepsKey_prims:
  "keepsKey k (returnM x)" "keepsKey k (throwM e)" "keepsKey k (liftM r)"
  "keepsKey k (param h name idx fb)" "keepsKey k (readVar g)" "keepsKey k (getBody k')"
  by (auto simp: keepsKey_def returnM_def throwM_def liftM_def param_def readVar_def getBody_def)

lemma keepsKey_setBody: "k \<noteq> k' \<Longrightarrow> keepsKey k (setBody k' x)"
  by (auto simp: keepsKey_def setBody_def update_conv' split: sum.splits)

lemma keepsKey_whenM: "keepsKey k m \<Longrightarrow> keepsKey k (whenM c m)"
  by (simp add: whenM_def keepsKey_prims)

lemma keepsKey_seqM_Nil: "keepsKey k (seqM [])"
  by (simp add: keepsKey_prims)

lemma keepsKey_seqM_Cons: "keepsKey k m \<Longrightarrow> keepsKey k (seqM ms) \<Longrightarrow> keepsKey k (seqM (m # ms))"
  by (simp add: keepsKey_bindM)

lemmas keepsKey_intros =
  keepsKey_bindM keepsKey_prims keepsKey_setBody keepsKey_whenM keepsKey_seqM_Nil
  keepsKey_seqM_Cons

lemma keepsKey_commitFields: "keepsKey ''sha'' (commitFields ap)"
  unfolding commitFields_def by (intro keepsKey_intros) simp_all

lemma keepsKey_fileContent: "keepsKey ''sha'' (fileContent h i it sto)"
  unfolding fileContent_def
  by (intro keepsKey_intros) (auto intro!: keepsKey_intros split: option.split)

lemma keepsKey_outcome:
  assumes "keepsKey k m"
    and "\<And>x v'. calls v' = calls v \<Longrightarrow> requestMethod v' = requestMethod v
           \<Longrightarrow> returnAll v' = returnAll v
           \<Longrightarrow> (\<forall>kvs. body v = JObj kvs \<longrightarrow> (\<exists>kvs'. body v' = JObj kvs' \<and> map_of kvs' k = map_of kvs k))
           \<Longrightarrow> Q x v'"
    and "\<And>e v'. calls v' = calls v \<Longrightarrow> E e v'"
  shows "postM m Q E v"
  using assms unfolding keepsKey_def postM_def
  by (auto split: prod.splits sum.splits)

lemma bindM_completes:
  "bindM m f v = (Inr y, v') \<Longrightarrow> \<exists>x v1. m v = (Inr x, v1) \<and> f x v1 = (Inr y, v')"
  by (auto simp: bindM_def split: prod.splits sum.splits)

lemma branch_statement:
  assumes "body v = JObj kvs" and "map_of kvs ''branch'' = None"
  shows "postM (bindM (liftM (getProp ap ''branch'')) (\<lambda>branch.
           whenM (truthy branch)
             (bindM (liftM (getProp branch ''branch'')) (\<lambda>inner.
                whenM (truthy inner) (setBody ''branch'' inner)))))
     (\<lambda>_ v'. getProp (body v') ''branch'' = Inr (branchOf ap)) (\<lambda>e v'. True) v"
  using assms by (simp add: branchOf_def update_conv' split: sum.split)

lemma commitFields_branch:
  assumes "body v = JObj []" and c: "commitFields ap v = (Inr x, v')"
  shows "getProp (body v') ''branch'' = Inr (branchOf ap)"
proof -
  let ?A = "bindM (liftM (getProp ap ''author'')) (\<lambda>author.
              whenM (truthy author) (setBody ''author'' author))"
  let ?B = "bindM (liftM (getProp ap ''committer'')) (\<lambda>committer.
              whenM (truthy committer) (setBody ''committer'' committer))"
  let ?C = "bindM (liftM (getProp ap ''branch'')) (\<lambda>branch.
              whenM (truthy branch)
                (bindM (liftM (getProp branch ''branch'')) (\<lambda>inner.
                   whenM (truthy inner) (setBody ''branch'' inner))))"
  have kA: "keepsKey ''branch'' ?A" and kB: "keepsKey ''branch'' ?B"
    by (intro keepsKey_intros; simp)+
  from c have "bindM ?A (\<lambda>_. bindM ?B (\<lambda>_. bindM ?C (\<lambda>_. returnM ()))) v = (Inr x, v')"
    by (simp add: commitFields_def)
  then obtain x1 v1
    where a: "?A v = (Inr x1, v1)"
      and r1: "bindM ?B (\<lambda>_. bindM ?C (\<lambda>_. returnM ())) v1 = (Inr x, v')"
    by (drule_tac bindM_completes) blast
  from r1 obtain x2 v2
    where b: "?B v1 = (Inr x2, v2)" and r2: "bindM ?C (\<lambda>_. returnM ()) v2 = (Inr x, v')"
    by (drule_tac bindM_completes) blast
  from r2 obtain x3 v3
    where c3: "?C v2 = (Inr x3, v3)" and r3: "returnM () v3 = (Inr x, v')"
    by (drule_tac bindM_completes) blast
  from r3 have v3: "v3 = v'"
    by (simp add: returnM_def)
  from kA a assms(1) have "\<exists>k1. body v1 = JObj k1 \<and> map_of k1 ''branch'' = map_of [] ''branch''"
    unfolding keepsKey_def by blast
  then obtain k1 where k1: "body v1 = JObj k1" "map_of k1 ''branch'' = None"
    by auto
  from kB b k1(1) have "\<exists>k2. body v2 = JObj k2 \<and> map_of k2 ''branch'' = map_of k1 ''branch''"
    unfolding keepsKey_def by blast
  with k1(2) obtain k2 where k2: "body v2 = JObj k2" "map_of k2 ''branch'' = None"
    by auto
  from postM_completed [OF branch_statement [OF k2] c3] v3 show ?thesis
    by simp
qed

lemma commitFields_rule:
  assumes b: "body v = JObj []"
    and q: "\<And>v' kvs. calls v' = calls v \<Longrightarrow> requestMethod v' = requestMethod v
           \<Longrightarrow> returnAll v' = returnAll v \<Longrightarrow> body v' = JObj kvs \<Longrightarrow> map_of kvs ''sha'' = None
           \<Longrightarrow> getProp (JObj kvs) ''branch'' = Inr (branchOf ap) \<Longrightarrow> Q () v'"
    and e: "\<And>e v'. calls v' = calls v \<Longrightarrow> E e v'"
  shows "postM (commitFields ap) Q E v"
proof -
  obtain r v' where r: "commitFields ap v = (r, v')"
    by (cases "commitFields ap v")
  from keepsKey_commitFields r b
  have k: "calls v' = calls v" "requestMethod v' = requestMethod v" "returnAll v' = returnAll v"
    and "\<exists>kvs'. body v' = JObj kvs' \<and> map_of kvs' ''sha'' = map_of [] ''sha''"
    unfolding keepsKey_def by blast+
  then obtain kvs where kvs: "body v' = JObj kvs" "map_of kvs ''sha'' = None"
    by auto
  show ?thesis
  proof (cases r)
    case (Inl err)
    with r e [OF k(1)] show ?thesis
      by (simp add: postM_def)
  next
    case (Inr x)
    from commitFields_branch [OF b r [unfolded Inr]] kvs
    have "getProp (JObj kvs) ''branch'' = Inr (branchOf ap)"
      by simp
    from q [OF k kvs this] r Inr show ?thesis
      by (simp add: postM_def)
  qed
qed

lemma getFileSha_call:
  "getFileSha h owner repository filePath branch v =
     (case apiResponse h (calls v) (shaLookup owner repository filePath branch) of
        Inl e \<Rightarrow> Inl e
      | Inr resp \<Rightarrow>
          (case shaOf resp of
             None \<Rightarrow> Inl (NodeOperationError ''Could not get the sha of the file.'')
           | Some sha \<Rightarrow> Inr sha),
      v\<lparr>calls := calls v @ [shaLookup owner repository filePath branch]\<rparr>)"
  by (cases "branch = JUndefined")
     (simp_all add: getFileSha_def shaLookup_def shaOf_def bindM_def githubApiRequest_def
       throwM_def returnM_def split: sum.split jsval.split option.split)

lemma getFileSha_rule:
  assumes q: "\<And>resp sha. apiResponse h (calls v) (shaLookup owner repository filePath branch) = Inr resp
             \<Longrightarrow> shaOf resp = Some sha
             \<Longrightarrow> Q sha (v\<lparr>calls := calls v @ [shaLookup owner repository filePath branch]\<rparr>)"
    and e: "\<And>e. E e (v\<lparr>calls := calls v @ [shaLookup owner repository filePath branch]\<rparr>)"
  shows "postM (getFileSha h owner repository filePath branch) Q E v"
  using assms by (simp add: postM_def getFileSha_call split: sum.split option.split)

lemma postM_request:
  "postM (request h) Q E v =
     (case apiResponse h (calls v) (callOf v) of
        Inl e \<Rightarrow> E e (v\<lparr>calls := calls v @ [callOf v]\<rparr>)
      | Inr x \<Rightarrow> Q x (v\<lparr>calls := calls v @ [callOf v]\<rparr>))"
  by (simp add: postM_def request_outcome split: sum.split)

lemma callOf_single:
  "returnAll v \<noteq> JBool True \<Longrightarrow> callOf v = ApiRequest (requestMethod v) (endpoint v) (body v) (qs v)"
  by (simp add: callOf_def)

lemma file_edit_post:
  assumes "getNodeParameter h ''owner'' i None = Inr owner"
    and "getNodeParameter h ''repository'' i None = Inr repository"
    and "getNodeParameter h ''filePath'' i None = Inr filePath"
    and "getNodeParameter h ''additionalParameters'' i (Some (JObj [])) = Inr ap"
    and "returnAll v \<noteq> JBool True"
  shows "postM (routeAndRequest h (JStr ''file'') (JStr ''edit'') i it sto)
    (\<lambda>x v'. \<exists>resp sha b q.
        apiResponse h (calls v) (shaLookup owner repository filePath (branchOf ap)) = Inr resp
      \<and> shaOf resp = Some sha
      \<and> calls v' = calls v @ [shaLookup owner repository filePath (branchOf ap),
                               ApiRequest ''PUT'' (contentsEndpoint owner repository filePath) b q]
      \<and> getProp b ''sha'' = Inr sha
      \<and> apiResponse h (calls v @ [shaLookup owner repository filePath (branchOf ap)])
           (ApiRequest ''PUT'' (contentsEndpoint owner repository filePath) b q) = Inr x)
    (\<lambda>e v'. calls v' = calls v
      \<or> calls v' = calls v @ [shaLookup owner repository filePath (branchOf ap)]
      \<or> (\<exists>resp sha b q.
            apiResponse h (calls v) (shaLookup owner repository filePath (branchOf ap)) = Inr resp
          \<and> shaOf resp = Some sha
          \<and> calls v' = calls v @ [shaLookup owner repository filePath (branchOf ap),
                               ApiRequest ''PUT'' (contentsEndpoint owner repository filePath) b q]
          \<and> getProp b ''sha'' = Inr sha
          \<and> apiResponse h (calls v @ [shaLookup owner repository filePath (branchOf ap)])
               (ApiRequest ''PUT'' (contentsEndpoint owner repository filePath) b q) = Inl e))
    v"
  using assms
  apply (simp add: routeAndRequest_def route_def fileRoute_def fileCreateEdit_def)
  apply (rule commitFields_rule)
  subgoal by simp
  subgoal for v1 kvs
    apply (simp add: update_conv')
    apply (rule getFileSha_rule)
    subgoal for resp sha
      apply (simp add: update_conv' split: sum.split)
      apply (intro allI impI)
      apply (rule keepsKey_outcome [OF keepsKey_fileContent])
      subgoal for msg x v2
        by (clarsimp simp: postM_request callOf_single update_conv' split: sum.split)
      subgoal by simp
      done
    subgoal by simp
    done
  subgoal by simp
  done

lemma file_delete_post:
  assumes "getNodeParameter h ''owner'' i None = Inr owner"
    and "getNodeParameter h ''repository'' i None = Inr repository"
    and "getNodeParameter h ''filePath'' i None = Inr filePath"
    and "getNodeParameter h ''additionalParameters'' i (Some (JObj [])) = Inr ap"
    and "returnAll v \<noteq> JBool True"
  shows "postM (routeAndRequest h (JStr ''file'') (JStr ''delete'') i it sto)
    (\<lambda>x v'. \<exists>resp sha b q.
        apiResponse h (calls v) (shaLookup owner repository filePath (branchOf ap)) = Inr resp
      \<and> shaOf resp = Some sha
      \<and> calls v' = calls v @ [shaLookup owner repository filePath (branchOf ap),
                               ApiRequest ''DELETE'' (contentsEndpoint owner repository filePath) b q]
      \<and> getProp b ''sha'' = Inr sha
      \<and> apiResponse h (calls v @ [shaLookup owner repository filePath (branchOf ap)])
           (ApiRequest ''DELETE'' (contentsEndpoint owner repository filePath) b q) = Inr x)
    (\<lambda>e v'. calls v' = calls v
      \<or> calls v' = calls v @ [shaLookup owner repository filePath (branchOf ap)]
      \<or> (\<exists>resp sha b q.
            apiResponse h (calls v) (shaLookup owner repository filePath (branchOf ap)) = Inr resp
          \<and> shaOf resp = Some sha
          \<and> calls v' = calls v @ [shaLookup owner repository filePath (branchOf ap),
                               ApiRequest ''DELETE'' (contentsEndpoint owner repository filePath) b q]
          \<and> getProp b ''sha'' = Inr sha
          \<and> apiResponse h (calls v @ [shaLookup owner repository filePath (branchOf ap)])
               (ApiRequest ''DELETE'' (contentsEndpoint owner repository filePath) b q) = Inl e))
    v"
  using assms
  apply (simp add: routeAndRequest_def route_def fileRoute_def fileDelete_def)
  apply (rule commitFields_rule)
  subgoal by simp
  subgoal for v1 kvs
    apply (simp add: update_conv' split: sum.split)
    apply (intro allI impI)
    apply (rule getFileSha_rule)
    subgoal for msg resp sha
      by (clarsimp simp: postM_request callOf_single update_conv' split: sum.split)
    subgoal by simp
    done
  subgoal by simp
  done

text \<open>
  C4. For \<^verbatim>\<open>file:edit\<close> and \<^verbatim>\<open>file:delete\<close>, when the owner, the repository, the
  file path and the additional parameters of item \<open>i\<close> can be read, the calls that the
  item adds are one of three: none, and the item has thrown; the SHA lookup alone (a
  \<^verbatim>\<open>GET\<close> of the contents endpoint of the file, scoped to the branch of the additional
  parameters), and the item has thrown; or the lookup, whose response carries a
  \<^verbatim>\<open>sha\<close>, followed by the \<^verbatim>\<open>PUT\<close> or \<^verbatim>\<open>DELETE\<close> to the same endpoint whose
  body has that \<^verbatim>\<open>sha\<close>. So the mutating call is never made without the lookup before
  it, and never when the lookup failed or gave no \<^verbatim>\<open>sha\<close>.
\<close>

theorem sha_lookup_before_mutation:
  assumes "(operation, method) \<in> {(''edit'', ''PUT''), (''delete'', ''DELETE'')}"
    and "getNodeParameter h ''owner'' i None = Inr owner"
    and "getNodeParameter h ''repository'' i None = Inr repository"
    and "getNodeParameter h ''filePath'' i None = Inr filePath"
    and "getNodeParameter h ''additionalParameters'' i (Some (JObj [])) = Inr ap"
    and "returnAll v \<noteq> JBool True"
    and "routeAndRequest h (JStr ''file'') (JStr operation) i it sto v = (r, v')"
  shows "(calls v' = calls v \<and> (\<exists>e. r = Inl e))
       \<or> (calls v' = calls v @ [shaLookup owner repository filePath (branchOf ap)]
           \<and> (\<exists>e. r = Inl e))
       \<or> (\<exists>resp sha b q.
             apiResponse h (calls v) (shaLookup owner repository filePath (branchOf ap)) = Inr resp
           \<and> shaOf resp = Some sha
           \<and> calls v' = calls v @ [shaLookup owner repository filePath (branchOf ap),
                  ApiRequest method (contentsEndpoint owner repository filePath) b q]
           \<and> getProp b ''sha'' = Inr sha
           \<and> r = apiResponse h (calls v @ [shaLookup owner repository filePath (branchOf ap)])
                  (ApiRequest method (contentsEndpoint owner repository filePath) b q))"
proof -
  from assms(1) consider "operation = ''edit''" "method = ''PUT''"
    | "operation = ''delete''" "method = ''DELETE''"
    by auto
  then show ?thesis
  proof cases
    case 1
    from postM_outcome [OF file_edit_post [OF assms(2-6)] assms(7) [unfolded 1]]
    show ?thesis
      unfolding 1 by (cases r) auto
  next
    case 2
    from postM_outcome [OF file_delete_post [OF assms(2-6)] assms(7) [unfolded 2]]
    show ?thesis
      unfolding 2 by (cases r) auto
  qed
qed

theorem sha_lookup_before_mutation_witness:
  "(\<exists>r v'. routeAndRequest (demoHost False nodeDemoParams demoApi) (JStr ''file'') (JStr ''edit'')
              0 demoItem [] startVars = (r, v')
        \<and> calls v' =
            [ApiRequest ''GET'' ''/repos/octocat/hello/contents/docs/read%20me.md'' (JObj []) (JObj []),
             ApiRequest ''PUT'' ''/repos/octocat/hello/contents/docs/read%20me.md''
               (JObj [(''sha'', JStr ''abc''), (''message'', JStr ''update''), (''content'', JStr ''hi'')])
               (JObj [])])
   \<and> (\<exists>v'. routeAndRequest (demoHost False nodeDemoParams pageApi) (JStr ''file'') (JStr ''delete'')
              0 demoItem [] startVars
            = (Inl (NodeOperationError ''Could not get the sha of the file.''), v')
        \<and> calls v' =
            [ApiRequest ''GET'' ''/repos/octocat/hello/contents/docs/read%20me.md'' (JObj []) (JObj [])])"
proof -
  let ?ep = "''/repos/octocat/hello/contents/docs/read%20me.md''"
  let ?L = "ApiRequest ''GET'' ?ep (JObj []) (JObj [])"
  let ?b = "JObj [(''sha'', JStr ''abc''), (''message'', JStr ''update''), (''content'', JStr ''hi'')]"
  let ?v1 = "\<lparr>requestMethod = ''PUT'', endpoint = ?ep, body = ?b, qs = JObj [],
              returnAll = JBool False, calls = [?L, ApiRequest ''PUT'' ?ep ?b (JObj [])]\<rparr>"
  let ?v2 = "\<lparr>requestMethod = ''DELETE'', endpoint = [], body = JObj [(''message'', JStr ''update'')],
              qs = JObj [], returnAll = JBool False, calls = [?L]\<rparr>"
  let ?h1 = "demoHost False nodeDemoParams demoApi"
  let ?h2 = "demoHost False nodeDemoParams pageApi"
  have run1: "routeAndRequest ?h1 (JStr ''file'') (JStr ''edit'') 0 demoItem [] startVars
      = (Inr (JObj [(''sha'', JStr ''abc''), (''content'', JStr ''aGk=''),
                    (''path'', JStr ''read me.md'')]), ?v1)"
    by code_simp
  have run2: "routeAndRequest ?h2 (JStr ''file'') (JStr ''delete'') 0 demoItem [] startVars
      = (Inl (NodeOperationError ''Could not get the sha of the file.''), ?v2)"
    by code_simp
  have p: "getNodeParameter ?h2 ''owner'' 0 None = Inr (JStr ''octocat'')"
    "getNodeParameter ?h2 ''repository'' 0 None = Inr (JStr ''hello'')"
    "getNodeParameter ?h2 ''filePath'' 0 None = Inr (JStr ''docs/read me.md'')"
    "getNodeParameter ?h2 ''additionalParameters'' 0 (Some (JObj [])) = Inr (JObj [])"
    by (simp_all add: demoHost_def nodeDemoParams_def)
  have ra: "returnAll startVars \<noteq> JBool True"
    by (simp add: startVars_def initialState_def)
  have m: "(''delete'', ''DELETE'') \<in> {(''edit'', ''PUT''), (''delete'', ''DELETE'')}"
    by simp
  from sha_lookup_before_mutation [OF m p ra run2]
  have "calls ?v2 = calls startVars
      \<or> calls ?v2 = calls startVars
           @ [shaLookup (JStr ''octocat'') (JStr ''hello'') (JStr ''docs/read me.md'') (branchOf (JObj []))]"
    by auto
  then have "calls ?v2 = [?L]"
    by simp
  with run1 run2 show ?thesis
    by auto
qed

section \<open>The attachment of file:get\<close>

lemma map_of_objectAssign_empty: "map_of (objectAssign [] src) = map_of src"
  by (rule ext) (simp add: map_of_objectAssign split: option.split)

lemma deref_append: "a < length sto \<Longrightarrow> deref (sto @ [m]) a = deref sto a"
  by (simp add: deref_def nth_append)

text \<open>
  C1. For \<^verbatim>\<open>file:get\<close> with \<^verbatim>\<open>asBinaryProperty\<close> \<^verbatim>\<open>true\<close>, let the API have answered
  the request of item \<open>i\<close>. If the response is an array, the \<^verbatim>\<open>try\<close> block throws the
  usage error, and what the \<^verbatim>\<open>catch\<close> block leaves has the items and the store as
  they were: no attachment is produced. If the response is an object and the helpers
  succeed, \<^verbatim>\<open>execute\<close> returns at once with the item array in which item \<open>i\<close> is a new
  item: it has the \<^verbatim>\<open>json\<close> of the old one and a new attachment mapping at a new
  address, which has the prepared binary data under the property name and, under every
  other name, the same reference as the mapping of the old item. Every mapping that was in
  the store is as it was, and \<^verbatim>\<open>returnData\<close> is neither changed nor returned.
\<close>

theorem file_get_binary:
  assumes "i < length (items st)"
    and "routeAndRequest h (JStr ''file'') (JStr ''get'') i (items st ! i) (store st) (variables st)
           = (Inr responseData, v')"
    and "getNodeParameter h ''asBinaryProperty'' i None = Inr (JBool True)"
  shows "(isArray responseData \<longrightarrow>
            tryBody h (JStr ''file'') (JStr ''get'') i st
              = Thrown (NodeOperationError ''File Path is a folder, not a file.'') v'
          \<and> processItem h (JStr ''file'') (JStr ''get'') i st
              = (if continueOnFail h
                 then Next (st\<lparr>variables := v',
                        returnData := returnData st
                          @ [JObj [(''error'', JStr ''File Path is a folder, not a file.'')]]\<rparr>)
                 else Throw (NodeOperationError ''File Path is a folder, not a file.'')
                        (st\<lparr>variables := v'\<rparr>)))
       \<and> (responseData = JObj responseFields
          \<and> getNodeParameter h ''binaryPropertyName'' i None = Inr name
          \<and> bufferFromBase64 h (case map_of responseFields ''content'' of None \<Rightarrow> JUndefined | Some c \<Rightarrow> c)
               = Inr buffer
          \<and> prepareBinaryData h buffer (case map_of responseFields ''path'' of None \<Rightarrow> JUndefined | Some p \<Rightarrow> p)
               = Inr b
          \<longrightarrow> (\<exists>newBinary.
                 processItem h (JStr ''file'') (JStr ''get'') i st
                   = Return (PrepareOutputData
                       ((items st)[i := \<lparr>json = json (items st ! i),
                                          binary = Some (length (store st))\<rparr>]))
                       (st\<lparr>items := (items st)[i := \<lparr>json = json (items st ! i),
                                                      binary = Some (length (store st))\<rparr>],
                           store := store st @ [newBinary], variables := v'\<rparr>)
               \<and> map_of newBinary =
                   (map_of (case binary (items st ! i) of
                              None \<Rightarrow> []
                            | Some a \<Rightarrow> deref (store st) a))(js_toString name \<mapsto> b)
               \<and> (\<forall>a. a < length (store st)
                       \<longrightarrow> deref (store st @ [newBinary]) a = deref (store st) a)))"
proof (intro conjI impI)
  assume arr: "isArray responseData"
  then show thrown: "tryBody h (JStr ''file'') (JStr ''get'') i st
      = Thrown (NodeOperationError ''File Path is a folder, not a file.'') v'"
    using assms by (simp add: tryBody_def binaryDelivery_def attachBinary_def bindS_def)
  show "processItem h (JStr ''file'') (JStr ''get'') i st
      = (if continueOnFail h
         then Next (st\<lparr>variables := v',
                returnData := returnData st
                  @ [JObj [(''error'', JStr ''File Path is a folder, not a file.'')]]\<rparr>)
         else Throw (NodeOperationError ''File Path is a folder, not a file.'')
                (st\<lparr>variables := v'\<rparr>))"
    by (simp add: processItem_def thrown catchBlock_def overwriteDataOperations_def)
next
  assume obj: "responseData = JObj responseFields
          \<and> getNodeParameter h ''binaryPropertyName'' i None = Inr name
          \<and> bufferFromBase64 h (case map_of responseFields ''content'' of None \<Rightarrow> JUndefined | Some c \<Rightarrow> c)
               = Inr buffer
          \<and> prepareBinaryData h buffer (case map_of responseFields ''path'' of None \<Rightarrow> JUndefined | Some p \<Rightarrow> p)
               = Inr b"
  let ?old = "case binary (items st ! i) of None \<Rightarrow> [] | Some a \<Rightarrow> objectAssign [] (deref (store st) a)"
  let ?new = "AList.update (js_toString name) b ?old"
  let ?its = "(items st)[i := \<lparr>json = json (items st ! i), binary = Some (length (store st))\<rparr>]"
  from obj have "attachBinary h i (items st) (store st) responseData = Inr (?its, store st @ [?new])"
    by (simp add: attachBinary_def bindS_def)
  with assms have "tryBody h (JStr ''file'') (JStr ''get'') i st = EarlyReturn ?its (store st @ [?new]) v'"
    by (simp add: tryBody_def binaryDelivery_def bindS_def)
  then have run: "processItem h (JStr ''file'') (JStr ''get'') i st
      = Return (PrepareOutputData ?its) (st\<lparr>items := ?its, store := store st @ [?new], variables := v'\<rparr>)"
    by (simp add: processItem_def)
  have m: "map_of ?new =
      (map_of (case binary (items st ! i) of None \<Rightarrow> [] | Some a \<Rightarrow> deref (store st) a))
        (js_toString name \<mapsto> b)"
    by (simp add: update_conv' map_of_objectAssign_empty split: option.split)
  have kept: "\<forall>a. a < length (store st) \<longrightarrow> deref (store st @ [?new]) a = deref (store st) a"
    by (simp add: deref_append)
  from run m kept
  show "\<exists>newBinary.
          processItem h (JStr ''file'') (JStr ''get'') i st
            = Return (PrepareOutputData ?its)
                (st\<lparr>items := ?its, store := store st @ [newBinary], variables := v'\<rparr>)
        \<and> map_of newBinary =
            (map_of (case binary (items st ! i) of None \<Rightarrow> [] | Some a \<Rightarrow> deref (store st) a))
              (js_toString name \<mapsto> b)
        \<and> (\<forall>a. a < length (store st) \<longrightarrow> deref (store st @ [newBinary]) a = deref (store st) a)"
    by blast
qed

theorem file_get_binary_witness:
  "(\<exists>newBinary v'.
      processItem (demoHost False binaryDemoParams demoApi) (JStr ''file'') (JStr ''get'') 0
        (initialState [attachedItem, demoItem] attachedStore)
      = Return (PrepareOutputData [\<lparr>json = JObj [(''n'', JNum 1)], binary = Some 1\<rparr>, demoItem])
          (initialState [attachedItem, demoItem] attachedStore
             \<lparr>items := [\<lparr>json = JObj [(''n'', JNum 1)], binary = Some 1\<rparr>, demoItem],
              store := [[(''old'', 7)], newBinary], variables := v'\<rparr>)
    \<and> map_of newBinary ''old'' = Some 7 \<and> map_of newBinary ''data'' = Some 4)
   \<and> (\<exists>v'. tryBody (demoHost False binaryDemoParams pageApi) (JStr ''file'') (JStr ''get'') 0
               (initialState [attachedItem, demoItem] attachedStore)
             = Thrown (NodeOperationError ''File Path is a folder, not a file.'') v')"
proof -
  let ?h = "demoHost False binaryDemoParams demoApi"
  let ?h2 = "demoHost False binaryDemoParams pageApi"
  let ?st = "initialState [attachedItem, demoItem] attachedStore"
  let ?ep = "''/repos/octocat/hello/contents/docs/read%20me.md''"
  let ?v = "\<lparr>requestMethod = ''GET'', endpoint = ?ep, body = JObj [], qs = JObj [],
             returnAll = JBool False, calls = [ApiRequest ''GET'' ?ep (JObj []) (JObj [])]\<rparr>"
  let ?fields = "[(''sha'', JStr ''abc''), (''content'', JStr ''aGk=''), (''path'', JStr ''read me.md'')]"
  have len: "0 < length (items ?st)"
    by (simp add: initialState_def)
  have rr: "routeAndRequest ?h (JStr ''file'') (JStr ''get'') 0 (items ?st ! 0) (store ?st)
              (variables ?st) = (Inr (JObj ?fields), ?v)"
    by code_simp
  have rr2: "routeAndRequest ?h2 (JStr ''file'') (JStr ''get'') 0 (items ?st ! 0) (store ?st)
              (variables ?st) = (Inr (JArr [JStr ''r1'', JStr ''r2'']), ?v)"
    by code_simp
  have flag: "getNodeParameter ?h ''asBinaryProperty'' 0 None = Inr (JBool True)"
    and flag2: "getNodeParameter ?h2 ''asBinaryProperty'' 0 None = Inr (JBool True)"
    by (simp_all add: demoHost_def binaryDemoParams_def)
  have hyps: "JObj ?fields = JObj ?fields
      \<and> getNodeParameter ?h ''binaryPropertyName'' 0 None = Inr (JStr ''data'')
      \<and> bufferFromBase64 ?h (case map_of ?fields ''content'' of None \<Rightarrow> JUndefined | Some c \<Rightarrow> c)
           = Inr ''aGk=''
      \<and> prepareBinaryData ?h ''aGk='' (case map_of ?fields ''path'' of None \<Rightarrow> JUndefined | Some p \<Rightarrow> p)
           = Inr 4"
    by (simp add: demoHost_def binaryDemoParams_def)
  from file_get_binary [OF len rr flag, where responseFields = ?fields and name = "JStr ''data''"
      and buffer = "''aGk=''" and b = 4] hyps
  obtain newBinary
    where run: "processItem ?h (JStr ''file'') (JStr ''get'') 0 ?st
        = Return (PrepareOutputData
            ((items ?st)[0 := \<lparr>json = json (items ?st ! 0), binary = Some (length (store ?st))\<rparr>]))
            (?st\<lparr>items := (items ?st)[0 := \<lparr>json = json (items ?st ! 0),
                                            binary = Some (length (store ?st))\<rparr>],
                 store := store ?st @ [newBinary], variables := ?v\<rparr>)"
      and m: "map_of newBinary =
          (map_of (case binary (items ?st ! 0) of None \<Rightarrow> [] | Some a \<Rightarrow> deref (store ?st) a))
            (js_toString (JStr ''data'') \<mapsto> 4)"
    by blast
  from m have "map_of newBinary ''old'' = Some 7" and "map_of newBinary ''data'' = Some 4"
    by (simp_all add: initialState_def attachedItem_def attachedStore_def deref_def)
  with run have first: "\<exists>newBinary v'.
      processItem ?h (JStr ''file'') (JStr ''get'') 0 ?st
      = Return (PrepareOutputData [\<lparr>json = JObj [(''n'', JNum 1)], binary = Some 1\<rparr>, demoItem])
          (?st\<lparr>items := [\<lparr>json = JObj [(''n'', JNum 1)], binary = Some 1\<rparr>, demoItem],
               store := [[(''old'', 7)], newBinary], variables := v'\<rparr>)
    \<and> map_of newBinary ''old'' = Some 7 \<and> map_of newBinary ''data'' = Some 4"
    by (auto simp: initialState_def attachedItem_def attachedStore_def)
  from file_get_binary [OF len rr2 flag2, where responseFields = "[]" and name = JNull
      and buffer = "[]" and b = 0]
  have "\<exists>v'. tryBody ?h2 (JStr ''file'') (JStr ''get'') 0 ?st
             = Thrown (NodeOperationError ''File Path is a folder, not a file.'') v'"
    by simp
  with first show ?thesis
    by (rule conjI)
qed

section \<open>The early return\<close>

lemma file_get_route_calls:
  "postM (route h (JStr ''file'') (JStr ''get'') i it sto)
     (\<lambda>_ v1. calls v1 = calls v) (\<lambda>e v1. calls v1 = calls v) v"
  by (simp add: route_def fileRoute_def fileGetList_def split: sum.split)

lemma tryBody_EarlyReturn:
  assumes "tryBody h resource operation i st = EarlyReturn its sto v'"
  shows "\<exists>responseData.
           routeAndRequest h resource operation i (items st ! i) (store st) (variables st)
             = (Inr responseData, v')
         \<and> binaryDelivery h (fullOperation resource operation) i (items st) (store st) responseData
             = Inr (Some (its, sto))"
  using assms
  by (auto simp: tryBody_def split: prod.splits sum.splits option.splits)

lemma binaryDelivery_Some:
  assumes "binaryDelivery h fullOp i its sto responseData = Inr (Some (its', sto'))"
  shows "getNodeParameter h ''asBinaryProperty'' i None = Inr (JBool True)
       \<and> (\<exists>newItem. its' = its[i := newItem])"
  using assms
  by (auto simp: binaryDelivery_def attachBinary_def bindS_def split: if_splits sum.splits)

text \<open>
  C9. When the \<^verbatim>\<open>try\<close> block of \<^verbatim>\<open>file:get\<close> returns early for item \<open>i\<close>, the whole
  loop ends there: \<^verbatim>\<open>execute\<close> returns the item array as it is at that moment, in which
  only position \<open>i\<close> has changed, and the calls of the run are those made before item \<open>i\<close>
  and the one request of item \<open>i\<close>. The items after \<open>i\<close> are not processed and no request
  is made for them.
\<close>

theorem early_return_ends_run:
  assumes "i < length (items st)"
    and "tryBody h (JStr ''file'') (JStr ''get'') i st = EarlyReturn its sto v'"
  shows "loop h (JStr ''file'') (JStr ''get'') i st
           = (Returns (PrepareOutputData its), st\<lparr>items := its, store := sto, variables := v'\<rparr>)
       \<and> getNodeParameter h ''asBinaryProperty'' i None = Inr (JBool True)
       \<and> length its = length (items st)
       \<and> (\<forall>j. j \<noteq> i \<longrightarrow> its ! j = items st ! j)
       \<and> calls v' = calls (variables st) @ [callOf v']"
proof -
  from tryBody_EarlyReturn [OF assms(2)] obtain responseData
    where rr: "routeAndRequest h (JStr ''file'') (JStr ''get'') i (items st ! i) (store st)
                 (variables st) = (Inr responseData, v')"
      and bd: "binaryDelivery h (fullOperation (JStr ''file'') (JStr ''get'')) i (items st) (store st)
                 responseData = Inr (Some (its, sto))"
    by blast
  from binaryDelivery_Some [OF bd] obtain newItem
    where flag: "getNodeParameter h ''asBinaryProperty'' i None = Inr (JBool True)"
      and its: "its = (items st)[i := newItem]"
    by blast
  from routeAndRequest_outcome [OF rr] obtain v1
    where r: "route h (JStr ''file'') (JStr ''get'') i (items st ! i) (store st) (variables st)
                = (Inr (), v1)"
      and v': "v' = v1\<lparr>calls := calls v1 @ [callOf v1]\<rparr>"
    by auto
  from postM_outcome [OF file_get_route_calls r] have "calls v1 = calls (variables st)"
    by simp
  then have c: "calls v' = calls (variables st) @ [callOf v']"
    by (simp add: v')
  have "processItem h (JStr ''file'') (JStr ''get'') i st
      = Return (PrepareOutputData its) (st\<lparr>items := its, store := sto, variables := v'\<rparr>)"
    by (simp add: processItem_def assms(2))
  with assms(1) have "loop h (JStr ''file'') (JStr ''get'') i st
      = (Returns (PrepareOutputData its), st\<lparr>items := its, store := sto, variables := v'\<rparr>)"
    by (simp add: loop.simps)
  with flag its c show ?thesis
    by simp
qed

theorem early_return_ends_run_witness:
  "\<exists>st'. execute (demoHost False fileGetParams demoApi) [attachedItem, demoItem, demoItem]
            attachedStore
          = (Returns (PrepareOutputData
               [\<lparr>json = JObj [(''n'', JNum 1)], binary = Some 1\<rparr>, demoItem, demoItem]), st')
        \<and> calls (variables st')
            = [ApiRequest ''GET'' ''/repos/octocat/hello/contents/docs/read%20me.md'' (JObj [])
                 (JObj [])]"
proof -
  let ?h = "demoHost False fileGetParams demoApi"
  let ?st = "initialState [attachedItem, demoItem, demoItem] attachedStore"
  let ?ep = "''/repos/octocat/hello/contents/docs/read%20me.md''"
  let ?v = "\<lparr>requestMethod = ''GET'', endpoint = ?ep, body = JObj [], qs = JObj [],
             returnAll = JBool False, calls = [ApiRequest ''GET'' ?ep (JObj []) (JObj [])]\<rparr>"
  let ?its = "[\<lparr>json = JObj [(''n'', JNum 1)], binary = Some 1\<rparr>, demoItem, demoItem]"
  let ?sto = "[[(''old'', 7)], [(''old'', 7), (''data'', 4)]]"
  have len: "0 < length (items ?st)"
    by (simp add: initialState_def)
  have t: "tryBody ?h (JStr ''file'') (JStr ''get'') 0 ?st = EarlyReturn ?its ?sto ?v"
    by code_simp
  have e: "execute ?h [attachedItem, demoItem, demoItem] attachedStore
             = loop ?h (JStr ''file'') (JStr ''get'') 0 ?st"
    by (simp add: execute_def demoHost_def fileGetParams_def)
  from early_return_ends_run [OF len t] e
  have "execute ?h [attachedItem, demoItem, demoItem] attachedStore
          = (Returns (PrepareOutputData ?its), ?st\<lparr>items := ?its, store := ?sto, variables := ?v\<rparr>)"
    by simp
  then show ?thesis
    by simp
qed

section \<open>Failing items\<close>

lemma processItem_Thrown:
  "tryBody h resource operation i st = Thrown e v'
   \<Longrightarrow> processItem h resource operation i st
       = catchBlock h (fullOperation resource operation) i e (st\<lparr>variables := v'\<rparr>)"
  by (simp add: processItem_def)

lemma processItem_continue:
  "continueOnFail h \<Longrightarrow> processItem h resource operation i st \<noteq> Throw e st'"
  by (simp add: processItem_def catchBlock_def split: attempt.split)

lemma loop_continue_returns:
  "continueOnFail h \<Longrightarrow> \<exists>out st'. loop h resource operation i st = (Returns out, st')"
proof (induction h resource operation i st rule: loop.induct)
  case (1 h resource operation i st)
  show ?case
  proof (cases "i < length (items st)")
    case False
    then show ?thesis
      by (simp add: loop.simps [of h resource operation i st])
  next
    case True
    show ?thesis
    proof (cases "processItem h resource operation i st")
      case (Next st1)
      from "1.IH" [OF True Next "1.prems"] True Next show ?thesis
        by (simp add: loop.simps [of h resource operation i st])
    next
      case (Return out st1)
      with True show ?thesis
        by (simp add: loop.simps [of h resource operation i st])
    next
      case (Throw e st1)
      with processItem_continue [OF "1.prems"] show ?thesis
        by blast
    qed
  qed
qed

lemma responseShapeOf_PassThrough:
  "responseShapeOf fullOp = PassThrough
   \<longleftrightarrow> \<not> (fullOp \<in> set overwriteDataOperations \<or> fullOp \<in> set overwriteDataOperationsArray)"
  by (simp add: responseShapeOf_def)

text \<open>
  C2. Let the processing of item \<open>i\<close> throw the error \<open>e\<close>. If the host continues on
  failure, the value \<^verbatim>\<open>{error: message}\<close> is appended to the accumulated output of the run
  when the operation replaces the items (by the response or by its elements), and is put
  in place of the payload of item \<open>i\<close> when the operation passes the items through; the
  loop goes on with item \<open>i + 1\<close> and the run returns, no error leaves it. If the host does
  not continue on failure, the run ends by throwing \<open>e\<close> again, and so delivers no output,
  whatever the items before \<open>i\<close> had produced.
\<close>

theorem continue_on_fail:
  assumes "i < length (items st)"
    and "tryBody h resource operation i st = Thrown e v'"
  shows "(continueOnFail h \<longrightarrow>
            loop h resource operation i st
              = loop h resource operation (Suc i)
                  (if responseShapeOf (fullOperation resource operation) = PassThrough
                   then st\<lparr>variables := v',
                           items := (items st)[i := (items st ! i)
                             \<lparr>json := JObj [(''error'', JStr (message e))]\<rparr>]\<rparr>
                   else st\<lparr>variables := v',
                           returnData := returnData st @ [JObj [(''error'', JStr (message e))]]\<rparr>)
          \<and> (\<exists>out st'. loop h resource operation i st = (Returns out, st')))
       \<and> (\<not> continueOnFail h \<longrightarrow>
            loop h resource operation i st = (Throws e, st\<lparr>variables := v'\<rparr>))"
proof (intro conjI impI)
  assume c: "continueOnFail h"
  from c assms(1) processItem_Thrown [OF assms(2)]
  show "loop h resource operation i st
          = loop h resource operation (Suc i)
              (if responseShapeOf (fullOperation resource operation) = PassThrough
               then st\<lparr>variables := v',
                       items := (items st)[i := (items st ! i)
                         \<lparr>json := JObj [(''error'', JStr (message e))]\<rparr>]\<rparr>
               else st\<lparr>variables := v',
                       returnData := returnData st @ [JObj [(''error'', JStr (message e))]]\<rparr>)"
    by (simp add: loop.simps [of h resource operation i st] catchBlock_def
        responseShapeOf_PassThrough)
  from loop_continue_returns [OF c]
  show "\<exists>out st'. loop h resource operation i st = (Returns out, st')" .
next
  assume "\<not> continueOnFail h"
  with assms(1) processItem_Thrown [OF assms(2)]
  show "loop h resource operation i st = (Throws e, st\<lparr>variables := v'\<rparr>)"
    by (simp add: loop.simps [of h resource operation i st] catchBlock_def)
qed

theorem continue_on_fail_witness:
  "fst (execute (demoHost True (runParams ''repository'' ''get'') failSecondApi)
          [demoItem, demoItem, demoItem] [])
     = Returns (ReturnJsonArray
         [JObj [(''id'', JNum 0)], JObj [(''error'', JStr ''Not Found'')], JObj [(''id'', JNum 2)]])
   \<and> fst (execute (demoHost True (runParams ''issue'' ''lock'') failSecondApi)
          [demoItem, demoItem, demoItem] [])
     = Returns (PrepareOutputData
         [demoItem, \<lparr>json = JObj [(''error'', JStr ''Not Found'')], binary = None\<rparr>, demoItem])
   \<and> fst (execute (demoHost False (runParams ''repository'' ''get'') failSecondApi)
          [demoItem, demoItem, demoItem] [])
     = Throws (UpstreamError ''Not Found'')"
proof -
  let ?its = "[demoItem, demoItem, demoItem]"
  let ?get = "\<lambda>owner. ApiRequest ''GET'' (''/repos/'' @ owner @ ''/hello'') (JObj []) (JObj [])"
  let ?lock = "\<lambda>owner. ApiRequest ''PUT'' (''/repos/'' @ owner @ ''/hello/issues/7/lock'') (JObj [])
                 (JObj [(''lock_reason'', JStr ''spam'')])"
  let ?vget = "\<lambda>owner cs. \<lparr>requestMethod = ''GET'', endpoint = ''/repos/'' @ owner @ ''/hello'',
                 body = JObj [], qs = JObj [], returnAll = JBool False, calls = cs\<rparr>"
  let ?vlock = "\<lambda>owner cs. \<lparr>requestMethod = ''PUT'',
                 endpoint = ''/repos/'' @ owner @ ''/hello/issues/7/lock'', body = JObj [],
                 qs = JObj [(''lock_reason'', JStr ''spam'')], returnAll = JBool False, calls = cs\<rparr>"
  let ?sget = "\<lparr>items = ?its, store = [], returnData = [JObj [(''id'', JNum 0)]],
                variables = ?vget ''octocat'' [?get ''octocat'']\<rparr> :: nat state"
  let ?slock = "\<lparr>items = ?its, store = [], returnData = [],
                 variables = ?vlock ''octocat'' [?lock ''octocat'']\<rparr> :: nat state"
  let ?A = "demoHost True (runParams ''repository'' ''get'') failSecondApi"
  let ?B = "demoHost True (runParams ''issue'' ''lock'') failSecondApi"
  let ?C = "demoHost False (runParams ''repository'' ''get'') failSecondApi"
  let ?e = "UpstreamError ''Not Found''"
  have len: "1 < length (items ?sget)" "1 < length (items ?slock)"
    by simp_all
  have cof: "continueOnFail ?A" "continueOnFail ?B" "\<not> continueOnFail ?C"
    by (simp_all add: demoHost_def)
  let ?errA = "\<lambda>st :: nat state. st\<lparr>variables := ?vget ''hubot'' [?get ''octocat'', ?get ''hubot''],
                 returnData := returnData st @ [JObj [(''error'', JStr (message ?e))]]\<rparr>"
  let ?errI = "\<lambda>st :: nat state. st\<lparr>variables := ?vget ''hubot'' [?get ''octocat'', ?get ''hubot''],
                 items := (items st)[1 := (items st ! 1)
                   \<lparr>json := JObj [(''error'', JStr (message ?e))]\<rparr>]\<rparr>"
  let ?lockA = "\<lambda>st :: nat state. st\<lparr>variables := ?vlock ''hubot'' [?lock ''octocat'', ?lock ''hubot''],
                 returnData := returnData st @ [JObj [(''error'', JStr (message ?e))]]\<rparr>"
  let ?lockI = "\<lambda>st :: nat state. st\<lparr>variables := ?vlock ''hubot'' [?lock ''octocat'', ?lock ''hubot''],
                 items := (items st)[1 := (items st ! 1)
                   \<lparr>json := JObj [(''error'', JStr (message ?e))]\<rparr>]\<rparr>"
  let ?nextA = "if responseShapeOf (fullOperation (JStr ''repository'') (JStr ''get'')) = PassThrough
                then ?errI ?sget else ?errA ?sget"
  let ?nextB = "if responseShapeOf (fullOperation (JStr ''issue'') (JStr ''lock'')) = PassThrough
                then ?lockI ?slock else ?lockA ?slock"
  have tA: "tryBody ?A (JStr ''repository'') (JStr ''get'') 1 ?sget
              = Thrown ?e (?vget ''hubot'' [?get ''octocat'', ?get ''hubot''])"
    by code_simp
  have tB: "tryBody ?B (JStr ''issue'') (JStr ''lock'') 1 ?slock
              = Thrown ?e (?vlock ''hubot'' [?lock ''octocat'', ?lock ''hubot''])"
    by code_simp
  have tC: "tryBody ?C (JStr ''repository'') (JStr ''get'') 1 ?sget
              = Thrown ?e (?vget ''hubot'' [?get ''octocat'', ?get ''hubot''])"
    by code_simp
  have eA: "execute ?A ?its [] = loop ?A (JStr ''repository'') (JStr ''get'') 1 ?sget"
    by code_simp
  have eB: "execute ?B ?its [] = loop ?B (JStr ''issue'') (JStr ''lock'') 1 ?slock"
    by code_simp
  have eC: "execute ?C ?its [] = loop ?C (JStr ''repository'') (JStr ''get'') 1 ?sget"
    by code_simp
  have lA: "fst (loop ?A (JStr ''repository'') (JStr ''get'') (Suc 1) ?nextA)
            = Returns (ReturnJsonArray
                [JObj [(''id'', JNum 0)], JObj [(''error'', JStr ''Not Found'')],
                 JObj [(''id'', JNum 2)]])"
    by code_simp
  have lB: "fst (loop ?B (JStr ''issue'') (JStr ''lock'') (Suc 1) ?nextB)
            = Returns (PrepareOutputData
                [demoItem, \<lparr>json = JObj [(''error'', JStr ''Not Found'')], binary = None\<rparr>,
                 demoItem])"
    by code_simp
  from continue_on_fail [OF len(1) tA] cof(1)
  have sA: "loop ?A (JStr ''repository'') (JStr ''get'') 1 ?sget
              = loop ?A (JStr ''repository'') (JStr ''get'') (Suc 1) ?nextA"
    by blast
  from continue_on_fail [OF len(2) tB] cof(2)
  have sB: "loop ?B (JStr ''issue'') (JStr ''lock'') 1 ?slock
              = loop ?B (JStr ''issue'') (JStr ''lock'') (Suc 1) ?nextB"
    by blast
  from continue_on_fail [OF len(1) tC] cof(3)
  have sC: "loop ?C (JStr ''repository'') (JStr ''get'') 1 ?sget
              = (Throws ?e, ?sget\<lparr>variables := ?vget ''hubot'' [?get ''octocat'', ?get ''hubot'']\<rparr>)"
    by blast
  have A: "fst (execute ?A ?its [])
             = Returns (ReturnJsonArray
                 [JObj [(''id'', JNum 0)], JObj [(''error'', JStr ''Not Found'')],
                  JObj [(''id'', JNum 2)]])"
    by (simp only: eA sA lA)
  have B: "fst (execute ?B ?its [])
             = Returns (PrepareOutputData
                 [demoItem, \<lparr>json = JObj [(''error'', JStr ''Not Found'')], binary = None\<rparr>,
                  demoItem])"
    by (simp only: eB sB lB)
  have C: "fst (execute ?C ?its []) = Throws ?e"
    by (simp only: eC sC fst_conv)
  from A B C show ?thesis
    by blast
qed

end
